theory Spec2Isabelle
  imports Complex_Main "HOL-Library.Sublist" "HOL-Library.AList"
begin

section \<open>Python strings\<close>

text \<open>
  A Python \<open>str\<close> is modelled as a HOL \<open>string\<close>, the list of its characters. HOL
  characters are the code points below 256, so the model covers the Latin-1 part of
  Python's strings; \<open>len\<close> is \<open>length\<close>. The library methods the service calls
  (\<open>strip\<close>, \<open>split\<close>, \<open>lower\<close>, \<open>title\<close>, \<open>in\<close>, \<open>join\<close>, \<open>re.findall\<close> ...)
  are written out below as Python defines them on these characters.
\<close>

definition py_isspace :: "char \<Rightarrow> bool" where
  \<comment> \<open>\<open>str.isspace\<close> and the regular expression class \<open>\s\<close> on code points below 256\<close>
  "py_isspace c = (c \<in> set [CHR 0x09, CHR 0x0A, CHR 0x0B, CHR 0x0C, CHR 0x0D,
      CHR 0x1C, CHR 0x1D, CHR 0x1E, CHR 0x1F, CHR 0x20, CHR 0x85, CHR 0xA0])"

definition is_digit :: "char \<Rightarrow> bool" where
  \<comment> \<open>the regular expression class \<open>\d\<close> on code points below 256\<close>
  "is_digit c = (c \<in> set ''0123456789'')"

definition upper_letters :: string where
  "upper_letters = ''ABCDEFGHIJKLMNOPQRSTUVWXYZ'' @
     [CHR 0xC0, CHR 0xC1, CHR 0xC2, CHR 0xC3, CHR 0xC4, CHR 0xC5, CHR 0xC6, CHR 0xC7,
      CHR 0xC8, CHR 0xC9, CHR 0xCA, CHR 0xCB, CHR 0xCC, CHR 0xCD, CHR 0xCE, CHR 0xCF,
      CHR 0xD0, CHR 0xD1, CHR 0xD2, CHR 0xD3, CHR 0xD4, CHR 0xD5, CHR 0xD6,
      CHR 0xD8, CHR 0xD9, CHR 0xDA, CHR 0xDB, CHR 0xDC, CHR 0xDD, CHR 0xDE]"

definition lower_letters :: string where
  "lower_letters = ''abcdefghijklmnopqrstuvwxyz'' @
     [CHR 0xE0, CHR 0xE1, CHR 0xE2, CHR 0xE3, CHR 0xE4, CHR 0xE5, CHR 0xE6, CHR 0xE7,
      CHR 0xE8, CHR 0xE9, CHR 0xEA, CHR 0xEB, CHR 0xEC, CHR 0xED, CHR 0xEE, CHR 0xEF,
      CHR 0xF0, CHR 0xF1, CHR 0xF2, CHR 0xF3, CHR 0xF4, CHR 0xF5, CHR 0xF6,
      CHR 0xF8, CHR 0xF9, CHR 0xFA, CHR 0xFB, CHR 0xFC, CHR 0xFD, CHR 0xFE]"

definition lower_char :: "char \<Rightarrow> char" where
  "lower_char c = (case map_of (zip upper_letters lower_letters) c of Some d \<Rightarrow> d | None \<Rightarrow> c)"

definition upper_char :: "char \<Rightarrow> char" where
  \<comment> \<open>the three small letters whose capital lies outside Latin-1 (0xB5, 0xDF, 0xFF) are
      left as they are\<close>
  "upper_char c = (case map_of (zip lower_letters upper_letters) c of Some d \<Rightarrow> d | None \<Rightarrow> c)"

definition is_cased :: "char \<Rightarrow> bool" where
  "is_cased c = (c \<in> set upper_letters \<or> c \<in> set lower_letters \<or>
                 c \<in> set [CHR 0xAA, CHR 0xB5, CHR 0xBA, CHR 0xDF, CHR 0xFF])"

definition py_lower :: "string \<Rightarrow> string" where
  "py_lower s = map lower_char s"

fun title_from :: "bool \<Rightarrow> string \<Rightarrow> string" where
  "title_from previous_is_cased [] = []"
| "title_from previous_is_cased (c # cs) =
     (if previous_is_cased then lower_char c else upper_char c) # title_from (is_cased c) cs"

definition py_title :: "string \<Rightarrow> string" where
  "py_title s = title_from False s"

definition py_strip :: "string \<Rightarrow> string" where
  "py_strip s = rev (dropWhile py_isspace (rev (dropWhile py_isspace s)))"

fun py_in :: "string \<Rightarrow> string \<Rightarrow> bool" where
  \<comment> \<open>\<open>needle in haystack\<close>: the substring test\<close>
  "py_in needle [] = (needle = [])"
| "py_in needle (c # cs) = (prefix needle (c # cs) \<or> py_in needle cs)"

fun split_ws_from :: "string \<Rightarrow> string \<Rightarrow> string list" where
  "split_ws_from cur [] = (if cur = [] then [] else [cur])"
| "split_ws_from cur (c # cs) =
     (if py_isspace c then (if cur = [] then split_ws_from [] cs else cur # split_ws_from [] cs)
      else split_ws_from (cur @ [c]) cs)"

definition py_split :: "string \<Rightarrow> string list" where
  \<comment> \<open>\<open>s.split()\<close>: the maximal runs of characters that are not whitespace\<close>
  "py_split s = split_ws_from [] s"

function split_on :: "string \<Rightarrow> string \<Rightarrow> string \<Rightarrow> string list" where
  "split_on sep cur [] = [cur]"
| "split_on sep cur (c # cs) =
     (if sep \<noteq> [] \<and> prefix sep (c # cs)
      then cur # split_on sep [] (drop (length sep) (c # cs))
      else split_on sep (cur @ [c]) cs)"
  by pat_completeness auto
termination
  by (relation "measure (\<lambda>(sep, cur, s). length s)") (auto simp: neq_Nil_conv)

definition py_split_sep :: "string \<Rightarrow> string \<Rightarrow> string list" where
  \<comment> \<open>\<open>s.split(sep)\<close> for a separator that is not empty\<close>
  "py_split_sep sep s = split_on sep [] s"

fun py_join :: "string \<Rightarrow> string list \<Rightarrow> string" where
  "py_join sep [] = []"
| "py_join sep [x] = x"
| "py_join sep (x # y # ys) = x @ sep @ py_join sep (y # ys)"

function collapse_ws :: "string \<Rightarrow> string" where
  \<comment> \<open>\<open>re.sub(r'\s+', ' ', s)\<close>\<close>
  "collapse_ws [] = []"
| "collapse_ws (c # cs) =
     (if py_isspace c then CHR '' '' # collapse_ws (dropWhile py_isspace cs)
      else c # collapse_ws cs)"
  by pat_completeness auto
termination
  by (relation "measure length") (auto simp: length_dropWhile_le less_Suc_eq_le)

fun string_of_nat :: "nat \<Rightarrow> string" where
  "string_of_nat n = (if n < 10 then [''0123456789'' ! n]
     else string_of_nat (n div 10) @ [''0123456789'' ! (n mod 10)])"

declare string_of_nat.simps [simp del]

definition nl :: string where
  "nl = [CHR 0x0A]"

subsection \<open>The two regular expressions of the link extractors\<close>

definition forum_topic_prefix :: string where
  "forum_topic_prefix = ''https://discourse.onlinedegree.iitm.ac.in/t/''"

definition slug_char :: "char \<Rightarrow> bool" where
  \<comment> \<open>the class \<open>[^/\s]\<close>\<close>
  "slug_char c = (c \<noteq> CHR ''/'' \<and> \<not> py_isspace c)"

definition match_forum_url :: "string \<Rightarrow> string option" where
  \<comment> \<open>The text that
      \<open>https://discourse\.onlinedegree\.iitm\.ac\.in/t/[^/\s]+/\d+(?:/\d+)?\<close>
      matches at the start of \<open>s\<close>, if it matches there. Both \<open>+\<close> are greedy, and giving
      characters back never helps: the character after a shortened slug is no \<open>/\<close>, and
      nothing follows the digits.\<close>
  "match_forum_url s =
     (if prefix forum_topic_prefix s then
        let r1 = drop (length forum_topic_prefix) s;
            slug = takeWhile slug_char r1;
            r2 = dropWhile slug_char r1
        in if slug = [] then None
           else (case r2 of
                   [] \<Rightarrow> None
                 | c # r3 \<Rightarrow>
                     if c \<noteq> CHR ''/'' then None
                     else let num = takeWhile is_digit r3;
                              r4 = dropWhile is_digit r3
                          in if num = [] then None
                             else (case r4 of
                                     [] \<Rightarrow> Some (forum_topic_prefix @ slug @ ''/'' @ num)
                                   | d # r5 \<Rightarrow>
                                       if d = CHR ''/'' \<and> takeWhile is_digit r5 \<noteq> []
                                       then Some (forum_topic_prefix @ slug @ ''/'' @ num @ ''/'' @
                                                  takeWhile is_digit r5)
                                       else Some (forum_topic_prefix @ slug @ ''/'' @ num)))
      else None)"

function findall_forum_urls :: "string \<Rightarrow> string list" where
  \<comment> \<open>\<open>re.findall\<close> of the pattern: the matches from left to right, none overlapping\<close>
  "findall_forum_urls [] = []"
| "findall_forum_urls (c # cs) =
     (case match_forum_url (c # cs) of
        Some m \<Rightarrow> m # findall_forum_urls (drop (length m) (c # cs))
      | None \<Rightarrow> findall_forum_urls cs)"
  by pat_completeness auto
termination
  by (relation "measure length")
     (auto simp: match_forum_url_def forum_topic_prefix_def Let_def
           split: if_splits list.splits)

fun search_topic :: "string \<Rightarrow> string option" where
  \<comment> \<open>\<open>re.search(r'/t/([^/]+)/', url)\<close>: group 1 of the leftmost match, if there is one\<close>
  "search_topic [] = None"
| "search_topic (c # cs) =
     (if prefix ''/t/'' (c # cs) \<and>
         takeWhile (\<lambda>x. x \<noteq> CHR ''/'') (drop 3 (c # cs)) \<noteq> [] \<and>
         dropWhile (\<lambda>x. x \<noteq> CHR ''/'') (drop 3 (c # cs)) \<noteq> []
      then Some (takeWhile (\<lambda>x. x \<noteq> CHR ''/'') (drop 3 (c # cs)))
      else search_topic cs)"

section \<open>Response Validator\<close>

text \<open>
  \<open>validate_response_structure\<close> (the copies in \<open>utils.py\<close> and \<open>views.py\<close> have the
  same statements) takes any Python value. The values are modelled by \<open>pyval\<close>: the
  JSON-like values, and \<open>PObj\<close> for every other object (a float, a set, bytes, a class
  instance ...), which carries a tag and whether \<open>json.dumps\<close> accepts it. A dict is an
  association list in insertion order, looked up with \<open>map_of\<close> and stored to with
  \<open>AList.update\<close>. The builtin \<open>str()\<close> on a value that is not a string is the
  parameter \<open>str_of\<close>.
\<close>

datatype pyval =
    PNone
  | PBool bool
  | PInt int
  | PStr string
  | PList "pyval list"
  | PDict "(string \<times> pyval) list"
  | PObj nat bool

datatype py_exception = ValueError | KeyError | TypeError

fun json_dumps_ok :: "pyval \<Rightarrow> bool" where
  \<comment> \<open>whether \<open>json.dumps\<close> returns on the value\<close>
  "json_dumps_ok (PList xs) = list_all json_dumps_ok xs"
| "json_dumps_ok (PDict kvs) = list_all json_dumps_ok (map snd kvs)"
| "json_dumps_ok (PObj tag ok) = ok"
| "json_dumps_ok _ = True"

definition py_str :: "(pyval \<Rightarrow> string) \<Rightarrow> pyval \<Rightarrow> string" where
  "py_str str_of v = (case v of PStr s \<Rightarrow> s | _ \<Rightarrow> str_of v)"

definition forum_root :: string where
  "forum_root = ''https://discourse.onlinedegree.iitm.ac.in/''"

definition default_link :: pyval where
  "default_link = PDict [(''url'', PStr forum_root), (''text'', PStr ''TDS Course Forum'')]"

definition safe_default :: pyval where
  "safe_default = PDict
     [(''answer'', PStr ''Response validation failed. Please try again.''),
      (''links'', PList [default_link])]"

definition clean_answer :: "(pyval \<Rightarrow> string) \<Rightarrow> pyval \<Rightarrow> string" where
  \<comment> \<open>lines 23 to 34 of \<open>utils.py\<close>: coerce, strip, default, truncate\<close>
  "clean_answer str_of a =
     (let answer = (case a of
                      PStr s \<Rightarrow> s
                    | PNone \<Rightarrow> ''No answer provided.''
                    | _ \<Rightarrow> str_of a);
          answer = py_strip answer;
          answer = (if answer = [] then ''Unable to provide a meaningful answer.'' else answer)
      in if length answer > 2000 then take 1997 answer @ ''...'' else answer)"

fun validate_links :: "(pyval \<Rightarrow> string) \<Rightarrow> pyval list \<Rightarrow> pyval list" where
  \<comment> \<open>the loop over \<open>links\<close>, lines 43 to 54\<close>
  "validate_links str_of [] = []"
| "validate_links str_of (link # rest) =
     (case link of
        PDict kv \<Rightarrow>
          (case (map_of kv ''url'', map_of kv ''text'') of
             (Some u, Some t) \<Rightarrow>
               (let url = py_strip (py_str str_of u);
                    tx = py_strip (py_str str_of t)
                in if url \<noteq> [] \<and> tx \<noteq> [] \<and> prefix ''http'' url
                   then PDict [(''url'', PStr url), (''text'', PStr tx)] # validate_links str_of rest
                   else validate_links str_of rest)
           | _ \<Rightarrow> validate_links str_of rest)
      | _ \<Rightarrow> validate_links str_of rest)"

definition validate_body :: "(pyval \<Rightarrow> string) \<Rightarrow> pyval \<Rightarrow> py_exception + pyval" where
  \<comment> \<open>the \<open>try\<close> block: \<open>Inl\<close> is an exception raised inside it\<close>
  "validate_body str_of response =
     (case response of
        PDict d0 \<Rightarrow>
          (let d1 = (if map_of d0 ''answer'' = None
                     then AList.update ''answer'' (PStr ''Unable to generate a proper response.'') d0
                     else d0);
               d2 = (if map_of d1 ''links'' = None then AList.update ''links'' (PList []) d1 else d1)
           in case map_of d2 ''answer'' of
                None \<Rightarrow> Inl KeyError
              | Some a \<Rightarrow>
                  (let d3 = AList.update ''answer'' (PStr (clean_answer str_of a)) d2
                   in case map_of d3 ''links'' of
                        None \<Rightarrow> Inl KeyError
                      | Some l \<Rightarrow>
                          (let links = (case l of PList ls \<Rightarrow> ls | _ \<Rightarrow> []);
                               validated_links = validate_links str_of links;
                               validated_links = (if validated_links = [] then [default_link]
                                                  else validated_links);
                               d4 = AList.update ''links'' (PList validated_links) d3
                           in if json_dumps_ok (PDict d4) then Inr (PDict d4) else Inl TypeError)))
      | _ \<Rightarrow> Inl ValueError)"

definition validate_response_structure :: "(pyval \<Rightarrow> string) \<Rightarrow> pyval \<Rightarrow> pyval" where
  \<comment> \<open>\<open>except Exception\<close>: every exception of the block gives the fixed payload\<close>
  "validate_response_structure str_of response =
     (case validate_body str_of response of
        Inr r \<Rightarrow> r
      | Inl e \<Rightarrow> safe_default)"

subsection \<open>The output contract\<close>

definition link_ok :: "pyval \<Rightarrow> bool" where
  "link_ok l =
     (case l of
        PDict kv \<Rightarrow>
          (case (map_of kv ''url'', map_of kv ''text'') of
             (Some (PStr u), Some (PStr t)) \<Rightarrow> u \<noteq> [] \<and> prefix ''http'' u \<and> t \<noteq> []
           | _ \<Rightarrow> False)
      | _ \<Rightarrow> False)"

definition answer_of :: "pyval \<Rightarrow> string option" where
  "answer_of r = (case r of
       PDict d \<Rightarrow> (case map_of d ''answer'' of Some (PStr a) \<Rightarrow> Some a | _ \<Rightarrow> None)
     | _ \<Rightarrow> None)"

definition links_of :: "pyval \<Rightarrow> pyval list option" where
  "links_of r = (case r of
       PDict d \<Rightarrow> (case map_of d ''links'' of Some (PList ls) \<Rightarrow> Some ls | _ \<Rightarrow> None)
     | _ \<Rightarrow> None)"

definition output_contract :: "pyval \<Rightarrow> bool" where
  "output_contract r =
     ((case answer_of r of Some a \<Rightarrow> 1 \<le> length a \<and> length a \<le> 2000 | None \<Rightarrow> False) \<and>
      (case links_of r of Some ls \<Rightarrow> ls \<noteq> [] \<and> list_all link_ok ls | None \<Rightarrow> False))"

section \<open>Content Store and Relevance Scorer\<close>

text \<open>
  \<open>DataScraper\<close> holds the course sections (a dict, in insertion order) and the forum
  posts (a list). Both are loaded once from literals of the source and never changed.
\<close>

record section_data =
  sec_title :: string
  sec_content :: string
  sec_topics :: "string list"

record forum_post =
  post_id :: string
  post_title :: string
  post_url :: string
  post_content :: string
  post_tags :: "string list"
  post_category :: string
  post_created_at :: string
  post_replies :: nat

record data_scraper =
  course_content :: "(string \<times> section_data) list"
  discourse_posts :: "forum_post list"

definition indent :: string where
  \<comment> \<open>the twenty blanks that start each line of a section's text\<close>
  "indent = replicate 20 (CHR '' '')"

definition week1_section :: section_data where
  "week1_section =
     \<lparr>sec_title = ''Introduction to Tools in Data Science'',
      sec_content =
        nl @ indent @ ''Tools in Data Science course overview:'' @ nl @ indent @
        ''- Python programming fundamentals'' @ nl @ indent @
        ''- Version control with Git'' @ nl @ indent @
        ''- Data analysis libraries (pandas, numpy)'' @ nl @ indent @
        ''- API usage and web scraping'' @ nl @ indent @ ''- Machine learning basics'' @
        nl @ indent @ ''- Assignment submission guidelines'' @ nl @ indent,
      sec_topics = [''python'', ''git'', ''pandas'', ''numpy'', ''apis'', ''ml'']\<rparr>"

definition week2_section :: section_data where
  "week2_section =
     \<lparr>sec_title = ''Python Environment Setup'',
      sec_content =
        nl @ indent @ ''Setting up Python environment for TDS:'' @ nl @ indent @
        ''- Install Python 3.8+ from python.org'' @ nl @ indent @
        ''- Use pip for package management'' @ nl @ indent @
        ''- Virtual environments with venv'' @ nl @ indent @
        ''- Jupyter notebook setup'' @ nl @ indent @
        ''- Common packages: pandas, numpy, matplotlib, seaborn'' @ nl @ indent,
      sec_topics = [''python'', ''setup'', ''environment'', ''jupyter'', ''packages'']\<rparr>"

definition assignments_section :: section_data where
  "assignments_section =
     \<lparr>sec_title = ''Assignment Guidelines'',
      sec_content =
        nl @ indent @ ''TDS Assignment submission guidelines:'' @ nl @ indent @
        ''- Submit through the designated platform'' @ nl @ indent @
        ''- Include proper documentation'' @ nl @ indent @
        ''- Follow naming conventions'' @ nl @ indent @
        ''- Test your code before submission'' @ nl @ indent @
        ''- Use version control for tracking changes'' @ nl @ indent,
      sec_topics = [''assignments'', ''submission'', ''guidelines'', ''documentation'']\<rparr>"

definition apis_section :: section_data where
  "apis_section =
     \<lparr>sec_title = ''API Usage in Data Science'',
      sec_content =
        nl @ indent @ ''Working with APIs in data science:'' @ nl @ indent @
        ''- RESTful API concepts'' @ nl @ indent @
        ''- HTTP methods (GET, POST, PUT, DELETE)'' @ nl @ indent @
        ''- Authentication (API keys, OAuth)'' @ nl @ indent @
        ''- Rate limiting and error handling'' @ nl @ indent @
        ''- Popular APIs: OpenAI, Twitter, Reddit'' @ nl @ indent @
        ''- Python requests library usage'' @ nl @ indent,
      sec_topics = [''api'', ''rest'', ''http'', ''authentication'', ''requests'', ''openai'']\<rparr>"

definition course_content_data :: "(string \<times> section_data) list" where
  \<comment> \<open>the literal of \<open>_load_course_content\<close>\<close>
  "course_content_data =
     [(''week1'', week1_section),
      (''week2'', week2_section),
      (''assignments'', assignments_section),
      (''apis'', apis_section)]"

definition post_155939 :: forum_post where
  "post_155939 =
     \<lparr>post_id = ''155939'',
      post_title = ''GA5 Question 8 Clarification'',
      post_url = ''https://discourse.onlinedegree.iitm.ac.in/t/ga5-question-8-clarification/'' @
        ''155939/4'',
      post_content =
        ''You must use gpt-3.5-turbo-0125, even if the AI Proxy only supports '' @
        ''gpt-4o-mini. Use the OpenAI API directly for this question. The '' @
        ''assignment specifically requires gpt-3.5-turbo-0125 for consistency in '' @
        ''grading.'',
      post_tags = [''gpt'', ''ai-proxy'', ''assignment'', ''openai'', ''api''],
      post_category = ''assignments'',
      post_created_at = ''2025-04-10'',
      post_replies = 8\<rparr>"

definition post_156001 :: forum_post where
  "post_156001 =
     \<lparr>post_id = ''156001'',
      post_title = ''Python Environment Setup Issues'',
      post_url = ''https://discourse.onlinedegree.iitm.ac.in/t/python-setup-issues/156001'',
      post_content =
        ''Common Python setup issues and solutions: 1) Use Python 3.8 or higher, '' @
        ''2) Create virtual environment with '' @ [CHR 0x27] @
        ''python -m venv tds_env'' @ [CHR 0x27] @ '', 3) Activate with '' @ [CHR 0x27] @
        ''source tds_env/bin/activate'' @ [CHR 0x27] @ '' (Linux/Mac) or '' @ [CHR 0x27] @
        ''tds_env'' @ [CHR 0x5C] @ ''Scripts'' @ [CHR 0x5C] @ ''activate'' @ [CHR 0x27] @
        '' (Windows), 4) Install required packages with '' @ [CHR 0x27] @
        ''pip install -r requirements.txt'' @ [CHR 0x27],
      post_tags = [''python'', ''setup'', ''environment'', ''virtual-env'', ''pip''],
      post_category = ''technical-help'',
      post_created_at = ''2025-04-08'',
      post_replies = 12\<rparr>"

definition post_155876 :: forum_post where
  "post_155876 =
     \<lparr>post_id = ''155876'',
      post_title = ''API Rate Limiting Best Practices'',
      post_url = ''https://discourse.onlinedegree.iitm.ac.in/t/api-rate-limiting/155876'',
      post_content =
        ''When working with APIs, implement proper rate limiting: 1) Check API '' @
        ''documentation for limits, 2) Use time.sleep() between requests, 3) '' @
        ''Implement exponential backoff for retries, 4) Cache responses when '' @
        ''possible, 5) Use batch requests if supported by the API'',
      post_tags = [''api'', ''rate-limiting'', ''best-practices'', ''requests''],
      post_category = ''programming-help'',
      post_created_at = ''2025-04-05'',
      post_replies = 6\<rparr>"

definition post_155654 :: forum_post where
  "post_155654 =
     \<lparr>post_id = ''155654'',
      post_title = ''Assignment Submission Format'',
      post_url = ''https://discourse.onlinedegree.iitm.ac.in/t/assignment-format/155654'',
      post_content =
        ''Proper assignment submission format: 1) Create a main.py file with your '' @
        ''solution, 2) Include requirements.txt with dependencies, 3) Add '' @
        ''README.md with explanation, 4) Use meaningful variable names and '' @
        ''comments, 5) Test your code thoroughly before submission'',
      post_tags = [''assignment'', ''submission'', ''format'', ''requirements''],
      post_category = ''assignments'',
      post_created_at = ''2025-03-28'',
      post_replies = 15\<rparr>"

definition post_155432 :: forum_post where
  "post_155432 =
     \<lparr>post_id = ''155432'',
      post_title = ''Git Version Control for TDS'',
      post_url = ''https://discourse.onlinedegree.iitm.ac.in/t/git-version-control/155432'',
      post_content =
        ''Using Git for TDS assignments: 1) Initialize repo with '' @ [CHR 0x27] @
        ''git init'' @ [CHR 0x27] @ '', 2) Add files with '' @ [CHR 0x27] @
        ''git add .'' @ [CHR 0x27] @ '', 3) Commit with meaningful messages '' @
        [CHR 0x27] @ ''git commit -m '' @ [CHR 0x22] @ ''message'' @ [CHR 0x22] @
        [CHR 0x27] @
        '', 4) Create branches for different features, 5) Push to GitHub for '' @
        ''backup and collaboration'',
      post_tags = [''git'', ''version-control'', ''github'', ''collaboration''],
      post_category = ''tools'',
      post_created_at = ''2025-03-20'',
      post_replies = 9\<rparr>"

definition discourse_posts_data :: "forum_post list" where
  \<comment> \<open>the literal of \<open>_load_discourse_sample_data\<close>\<close>
  "discourse_posts_data = [post_155939, post_156001, post_155876, post_155654, post_155432]"

definition DataScraper_init :: data_scraper where
  "DataScraper_init =
     \<lparr>course_content = course_content_data, discourse_posts = discourse_posts_data\<rparr>"

definition count_where :: "('a \<Rightarrow> bool) \<Rightarrow> 'a list \<Rightarrow> nat" where
  \<comment> \<open>\<open>sum(1 for x in xs if p(x))\<close>\<close>
  "count_where p xs = sum_list (map (\<lambda>x. 1) (filter p xs))"

definition word_set :: "string \<Rightarrow> string list" where
  \<comment> \<open>\<open>set(s.split())\<close>: the distinct words. The set is only summed over and tested
      for a member, which do not depend on the order it iterates in.\<close>
  "word_set s = remdups (py_split s)"

definition course_relevance_score :: "section_data \<Rightarrow> string \<Rightarrow> nat" where
  \<comment> \<open>lines 186 to 196 of \<open>data_scraper.py\<close>\<close>
  "course_relevance_score sec question_lower =
     (let question_words = word_set question_lower;
          content_lower = py_lower (sec_content sec);
          topics = sec_topics sec;
          topic_matches = count_where (\<lambda>topic. py_in topic question_lower) topics;
          content_matches = count_where (\<lambda>word. py_in word content_lower) question_words
      in topic_matches * 2 + content_matches)"

definition render_section :: "section_data \<Rightarrow> string" where
  "render_section sec =
     ''Course Material - '' @ sec_title sec @ '':'' @ nl @ py_strip (sec_content sec)"

definition top_matches :: "(nat \<times> string) list \<Rightarrow> string list" where
  \<comment> \<open>\<open>matches.sort(key=lambda x: x[0], reverse=True)\<close>, a stable sort, then the texts
      of \<open>matches[:3]\<close>\<close>
  "top_matches matches = map snd (take 3 (sort_key (\<lambda>m. - int (fst m)) matches))"

definition search_course_content :: "data_scraper \<Rightarrow> string \<Rightarrow> string list" where
  "search_course_content self question_lower =
     top_matches
       (concat (map (\<lambda>(section_key, sec).
                       if course_relevance_score sec question_lower > 0
                       then [(course_relevance_score sec question_lower,
                              render_section sec)]
                       else [])
                    (course_content self)))"

definition post_relevance_score :: "forum_post \<Rightarrow> string \<Rightarrow> nat" where
  \<comment> \<open>lines 217 to 231 of \<open>data_scraper.py\<close>\<close>
  "post_relevance_score post question_lower =
     (let question_words = word_set question_lower;
          title_lower = py_lower (post_title post);
          content_lower = py_lower (post_content post);
          tags = post_tags post;
          tag_matches = count_where (\<lambda>tag. py_in tag question_lower) tags;
          title_matches = count_where (\<lambda>word. py_in word title_lower) question_words;
          content_matches = count_where (\<lambda>word. py_in word content_lower) question_words
      in tag_matches * 3 + title_matches * 2 + content_matches)"

definition render_post :: "forum_post \<Rightarrow> string" where
  "render_post post =
     ''Discourse Post: '' @ post_title post @ nl @ ''URL: '' @ post_url post @ nl @
     ''Content: '' @ post_content post @ nl @ ''Tags: '' @ py_join '', '' (post_tags post)"

definition search_discourse_posts :: "data_scraper \<Rightarrow> string \<Rightarrow> string list" where
  "search_discourse_posts self question_lower =
     top_matches
       (concat (map (\<lambda>post.
                       if post_relevance_score post question_lower > 0
                       then [(post_relevance_score post question_lower, render_post post)]
                       else [])
                    (discourse_posts self)))"

definition search_relevant_content :: "data_scraper \<Rightarrow> string \<Rightarrow> string" where
  \<comment> \<open>the records have every field the searches read, so no \<open>except\<close> branch of the
      three functions is taken\<close>
  "search_relevant_content self question =
     (let question_lower = py_lower question;
          relevant_content = search_course_content self question_lower @
                             search_discourse_posts self question_lower;
          combined_content = py_join (nl @ nl) (take 5 relevant_content)
      in if combined_content \<noteq> [] then combined_content
         else ''No specific course content found for this question.'')"

section \<open>Generation Client\<close>

text \<open>
  The answer payload the services build is a dict with the keys \<open>answer\<close> and \<open>links\<close>,
  each link a dict with the keys \<open>url\<close> and \<open>text\<close>.

  The external endpoint is the parameter \<open>model\<close>: what \<open>generate_content\<close> does on a
  prompt at an attempt of the retry loop, either a response with its text (the empty text
  for a response without one) or an exception with its message. What a call does beyond
  its result is returned as a list of events: the calls of the endpoint and the sleeps.
\<close>

record link =
  link_url :: string
  link_text :: string

record answer_payload =
  answer :: string
  links :: "link list"

datatype outcome = Text string | Raises string

type_synonym gen_model = "string \<Rightarrow> nat \<Rightarrow> outcome"

datatype event = Call string | Sleep real

record ai_service =
  model :: "gen_model option"
  is_initialized :: bool

definition AIService_init :: "string \<Rightarrow> gen_model option \<Rightarrow> ai_service" where
  \<comment> \<open>\<open>_initialize_gemini\<close>: \<open>api_key\<close> is the configured key, \<open>client\<close> the model that
      \<open>genai.GenerativeModel\<close> returns, \<open>None\<close> when the configuration raises\<close>
  "AIService_init api_key client =
     (if api_key \<noteq> [] then
        (case client of
           Some m \<Rightarrow> \<lparr>model = Some m, is_initialized = True\<rparr>
         | None \<Rightarrow> \<lparr>model = None, is_initialized = False\<rparr>)
      else \<lparr>model = None, is_initialized = False\<rparr>)"

definition create_prompt :: "string \<Rightarrow> string \<Rightarrow> string \<Rightarrow> string" where
  "create_prompt question context image_context =
     ''You are a Teaching Assistant for Tools in Data Science (TDS) at IIT Madras.'' @ nl @ nl @
     ''COURSE CONTEXT:'' @ nl @ take 800 context @ nl @ nl @ image_context @ nl @ nl @
     ''STUDENT QUESTION: '' @ question @ nl @ nl @
     ''INSTRUCTIONS:'' @ nl @
     ''- Provide helpful, accurate answers based on TDS course content'' @ nl @
     ''- Be specific about assignments, tools (Python, Git, APIs), and requirements'' @ nl @
     ''- Keep responses concise but informative'' @ nl @
     ''- Reference course materials when relevant'' @ nl @ nl @
     ''Answer the student'' @ [CHR 0x27] @ ''s question directly and helpfully.''"

definition is_quota_error :: "string \<Rightarrow> bool" where
  \<comment> \<open>line 134, on \<open>error_str = str(e).lower()\<close>\<close>
  "is_quota_error error_str =
     (py_in ''429'' error_str \<or> py_in ''quota'' error_str \<or> py_in ''exceeded'' error_str)"

fun retry_loop :: "gen_model \<Rightarrow> string \<Rightarrow> nat \<Rightarrow> nat list \<Rightarrow> string option \<times> event list" where
  \<comment> \<open>\<open>for attempt in range(max_retries)\<close>, over the attempts still to run\<close>
  "retry_loop m prompt max_retries [] = (None, [])"
| "retry_loop m prompt max_retries (attempt # rest) =
     (case m prompt attempt of
        Text t \<Rightarrow>
          if t \<noteq> [] then (Some (py_strip t), [Call prompt])
          else (case retry_loop m prompt max_retries rest of
                  (result, events) \<Rightarrow> (result, Call prompt # events))
      | Raises e \<Rightarrow>
          if is_quota_error (py_lower e) then (None, [Call prompt])
          else if int attempt < int max_retries - 1
          then (case retry_loop m prompt max_retries rest of
                  (result, events) \<Rightarrow> (result, Call prompt # Sleep 1 # events))
          else (case retry_loop m prompt max_retries rest of
                  (result, events) \<Rightarrow> (result, Call prompt # events)))"

definition generate_with_retry :: "gen_model \<Rightarrow> string \<Rightarrow> nat \<Rightarrow> string option \<times> event list" where
  "generate_with_retry m prompt max_retries = retry_loop m prompt max_retries [0..<max_retries]"

fun truncate_sentences :: "string \<Rightarrow> string list \<Rightarrow> string" where
  \<comment> \<open>the loop of lines 174 to 177, with its \<open>break\<close>\<close>
  "truncate_sentences truncated [] = truncated"
| "truncate_sentences truncated (sentence # rest) =
     (if length (truncated @ sentence) > 1000 then truncated
      else truncate_sentences (truncated @ sentence @ ''. '') rest)"

definition no_response_text :: string where
  "no_response_text = ''I couldn'' @ [CHR 0x27] @ ''t generate a proper response.''"

definition clean_answer_text :: "string \<Rightarrow> string" where
  "clean_answer_text raw_text =
     (if raw_text = [] then no_response_text
      else let cleaned = collapse_ws (py_strip raw_text);
               cleaned = (if length cleaned > 1200
                          then py_strip (truncate_sentences [] (py_split_sep ''. '' cleaned))
                          else cleaned)
           in if cleaned \<noteq> [] then cleaned else no_response_text)"

section \<open>Link Extractor\<close>

definition py_set_list :: "(string \<Rightarrow> nat) \<Rightarrow> string list \<Rightarrow> string list" where
  \<comment> \<open>\<open>list(set(xs))\<close>: the distinct elements, in the order the set iterates in. Python
      leaves that order open (it follows the strings' hashes, which change from process to
      process); \<open>rank\<close> stands for it, and every arrangement of the distinct elements is
      \<open>py_set_list rank xs\<close> for some \<open>rank\<close>.\<close>
  "py_set_list rank xs = sort_key rank (remdups xs)"

definition replace_char :: "char \<Rightarrow> char \<Rightarrow> string \<Rightarrow> string" where
  "replace_char a b s = map (\<lambda>c. if c = a then b else c) s"

fun label_links :: "nat \<Rightarrow> string list \<Rightarrow> link list" where
  \<comment> \<open>\<open>for i, url in enumerate(unique_urls)\<close>, lines 195 to 203\<close>
  "label_links i [] = []"
| "label_links i (url # rest) =
     \<lparr>link_url = url,
      link_text = (case search_topic url of
                     Some topic \<Rightarrow> py_title (replace_char (CHR ''-'') (CHR '' '') topic) @ '' Discussion''
                   | None \<Rightarrow> ''Related Discussion '' @ string_of_nat (i + 1))\<rparr>
     # label_links (i + 1) rest"

definition assignment_forum :: string where
  "assignment_forum =
     ''https://discourse.onlinedegree.iitm.ac.in/c/degree-program/tools-in-data-science/''"

definition extract_relevant_links :: "(string \<Rightarrow> nat) \<Rightarrow> string \<Rightarrow> string \<Rightarrow> link list" where
  \<comment> \<open>\<open>AIService._extract_relevant_links\<close>. Nothing in the \<open>try\<close> block raises on
      strings, so its \<open>except\<close> branch, which returns the default link, is never taken.\<close>
  "extract_relevant_links rank context question =
     (let discourse_urls = findall_forum_urls context;
          unique_urls = take 2 (py_set_list rank discourse_urls);
          found = label_links 0 unique_urls
      in if found = [] then
           (let question_lower = py_lower question
            in if list_ex (\<lambda>word. py_in word question_lower) [''assignment'', ''homework'', ''submit'']
               then [\<lparr>link_url = assignment_forum, link_text = ''TDS Assignment Help''\<rparr>]
               else [\<lparr>link_url = forum_root, link_text = ''TDS Course Forum''\<rparr>])
         else found)"

fun number_links :: "nat \<Rightarrow> string list \<Rightarrow> link list" where
  \<comment> \<open>\<open>for i, url in enumerate(urls[:2])\<close>, lines 353 to 357\<close>
  "number_links i [] = []"
| "number_links i (url # rest) =
     \<lparr>link_url = url, link_text = ''Related Discussion '' @ string_of_nat (i + 1)\<rparr>
     # number_links (i + 1) rest"

definition extract_links_from_context :: "string \<Rightarrow> link list" where
  \<comment> \<open>\<open>MultiAIService._extract_links_from_context\<close>\<close>
  "extract_links_from_context context =
     (let urls = findall_forum_urls context;
          found = number_links 0 (take 2 urls)
      in if found = [] then [\<lparr>link_url = forum_root, link_text = ''TDS Course Forum''\<rparr>]
         else found)"

section \<open>Fallback Engine\<close>

definition ai_model_answer :: string where
  \<comment> \<open>line 231 of \<open>ai_service.py\<close>\<close>
  "ai_model_answer =
     ''For TDS assignments requiring specific AI models like GPT-3.5-turbo, use '' @
     ''the OpenAI API directly as specified in the assignment requirements. The '' @
     ''assignment may specify a particular model version for consistency in '' @
     ''grading.''"

definition python_setup_answer :: string where
  \<comment> \<open>line 235 of \<open>ai_service.py\<close>\<close>
  "python_setup_answer =
     ''For Python setup in TDS: 1) Install Python 3.8+, 2) Create virtual '' @
     ''environment: '' @ [CHR 0x27] @ ''python -m venv tds_env'' @ [CHR 0x27] @
     '', 3) Activate: '' @ [CHR 0x27] @ ''source tds_env/bin/activate'' @ [CHR 0x27] @
     '' (Linux/Mac) or '' @ [CHR 0x27] @ ''tds_env'' @ [CHR 0x5C] @ ''Scripts'' @
     [CHR 0x5C] @ ''activate'' @ [CHR 0x27] @ '' (Windows), 4) Install packages: '' @
     [CHR 0x27] @ ''pip install -r requirements.txt'' @ [CHR 0x27] @ ''.''"

definition assignment_answer :: string where
  \<comment> \<open>line 239 of \<open>ai_service.py\<close>\<close>
  "assignment_answer =
     ''For TDS assignments: 1) Follow the specified format, 2) Include proper '' @
     ''documentation and comments, 3) Test your code thoroughly, 4) Submit '' @
     ''through the designated platform, 5) Check discourse for '' @
     ''assignment-specific clarifications and deadlines.''"

definition git_answer :: string where
  \<comment> \<open>line 243 of \<open>ai_service.py\<close>\<close>
  "git_answer =
     ''For Git in TDS: 1) Initialize: '' @ [CHR 0x27] @ ''git init'' @ [CHR 0x27] @
     '', 2) Add files: '' @ [CHR 0x27] @ ''git add .'' @ [CHR 0x27] @ '', 3) Commit: '' @
     [CHR 0x27] @ ''git commit -m '' @ [CHR 0x22] @ ''meaningful message'' @ [CHR 0x22] @
     [CHR 0x27] @ '', 4) Push to GitHub: '' @ [CHR 0x27] @ ''git push origin main'' @
     [CHR 0x27] @ ''. Use version control for all assignments.''"

definition debugging_answer :: string where
  \<comment> \<open>line 247 of \<open>ai_service.py\<close>\<close>
  "debugging_answer =
     ''For debugging in TDS: 1) Read error messages carefully, 2) Check your code '' @
     ''syntax and logic, 3) Use print statements for debugging, 4) Search '' @
     ''discourse for similar issues, 5) Share your error on the forum for help.''"

definition high_demand_answer :: string where
  \<comment> \<open>line 251 of \<open>ai_service.py\<close>\<close>
  "high_demand_answer =
     ''I'' @ [CHR 0x27] @
     ''m currently experiencing high demand. Please check the TDS course '' @
     ''materials on the learning platform or post your question on the discourse '' @
     ''forum where TAs and fellow students can provide detailed assistance.''"

definition ctx_ai_model_answer :: string where
  \<comment> \<open>line 329 of \<open>ai_service.py\<close>\<close>
  "ctx_ai_model_answer =
     ''For AI model questions in TDS: Use the specific model mentioned in the '' @
     ''assignment (like gpt-3.5-turbo-0125) through the OpenAI API directly, even '' @
     ''if proxies support different models.''"

definition ctx_python_answer :: string where
  \<comment> \<open>line 332 of \<open>ai_service.py\<close>\<close>
  "ctx_python_answer =
     ''For Python in TDS: Install Python 3.8+, create virtual environment with '' @
     [CHR 0x27] @ ''python -m venv tds_env'' @ [CHR 0x27] @
     '', activate it, then install required packages with pip.''"

definition ctx_assignment_answer :: string where
  \<comment> \<open>line 335 of \<open>ai_service.py\<close>\<close>
  "ctx_assignment_answer =
     ''For TDS assignments: Follow the submission format, include documentation, '' @
     ''test thoroughly, and check discourse for specific requirements and '' @
     ''deadlines.''"

definition ctx_generic_answer :: string where
  \<comment> \<open>line 338 of \<open>ai_service.py\<close>\<close>
  "ctx_generic_answer =
     ''For detailed help with your TDS question, please post on the discourse '' @
     ''forum where TAs and students can provide comprehensive assistance.''"

definition any_in :: "string list \<Rightarrow> string \<Rightarrow> bool" where
  \<comment> \<open>\<open>any(word in question_lower for word in words)\<close>\<close>
  "any_in words question_lower = list_ex (\<lambda>word. py_in word question_lower) words"

definition fallback_response :: "string \<Rightarrow> answer_payload" where
  \<comment> \<open>\<open>AIService._fallback_response\<close>, the category fallback\<close>
  "fallback_response question =
     (let question_lower = (if question \<noteq> [] then py_lower question else [])
      in if any_in [''gpt'', ''openai'', ''api'', ''model'', ''ai''] question_lower
         then \<lparr>answer = ai_model_answer,
               links = [\<lparr>link_url = forum_root, link_text = ''AI Model Usage Help''\<rparr>]\<rparr>
         else if any_in [''python'', ''setup'', ''install'', ''environment'', ''pip''] question_lower
         then \<lparr>answer = python_setup_answer,
               links = [\<lparr>link_url = forum_root, link_text = ''Python Setup Help''\<rparr>]\<rparr>
         else if any_in [''assignment'', ''submit'', ''deadline'', ''homework'', ''ga''] question_lower
         then \<lparr>answer = assignment_answer,
               links = [\<lparr>link_url = forum_root, link_text = ''Assignment Guidelines''\<rparr>]\<rparr>
         else if any_in [''git'', ''version'', ''control'', ''github'', ''commit''] question_lower
         then \<lparr>answer = git_answer,
               links = [\<lparr>link_url = forum_root, link_text = ''Git Version Control''\<rparr>]\<rparr>
         else if any_in [''error'', ''debug'', ''fix'', ''problem'', ''issue''] question_lower
         then \<lparr>answer = debugging_answer,
               links = [\<lparr>link_url = forum_root, link_text = ''Debugging Help''\<rparr>]\<rparr>
         else \<lparr>answer = high_demand_answer,
               links = [\<lparr>link_url = forum_root, link_text = ''TDS Course Forum''\<rparr>]\<rparr>)"

fun relevant_sentences :: "string list \<Rightarrow> string list \<Rightarrow> string list" where
  \<comment> \<open>the loop of lines 318 to 322 over \<open>sentences[:10]\<close>\<close>
  "relevant_sentences question_words [] = []"
| "relevant_sentences question_words (sentence # rest) =
     (let sentence_lower = py_lower sentence;
          matches = count_where (\<lambda>word. py_in word sentence_lower \<and> length word > 3)
                      question_words
      in if matches > 0 then py_strip sentence # relevant_sentences question_words rest
         else relevant_sentences question_words rest)"

definition context_info :: "string \<Rightarrow> string \<Rightarrow> string" where
  \<comment> \<open>lines 311 to 325\<close>
  "context_info question_lower context =
     (if context \<noteq> [] \<and> length context > 50 then
        (let sentences = py_split_sep ''.'' context;
             question_words = word_set question_lower;
             relevant = relevant_sentences question_words (take 10 sentences)
         in if relevant \<noteq> []
            then ''Based on course materials: '' @ py_join ''. '' (take 2 relevant) @ ''. ''
            else [])
      else [])"

definition canned_answer :: "string \<Rightarrow> string" where
  \<comment> \<open>the chain of lines 328 to 338, without the prefix \<open>context_info\<close>\<close>
  "canned_answer question_lower =
     (if any_in [''gpt'', ''openai'', ''api'', ''model''] question_lower then ctx_ai_model_answer
      else if any_in [''python'', ''setup'', ''environment''] question_lower then ctx_python_answer
      else if any_in [''assignment'', ''submit'', ''homework''] question_lower
      then ctx_assignment_answer
      else ctx_generic_answer)"

definition intelligent_fallback :: "string \<Rightarrow> string \<Rightarrow> answer_payload" where
  \<comment> \<open>\<open>MultiAIService._intelligent_fallback\<close>, the context-aware fallback. Each branch of
      the chain is \<open>f"{context_info}..."\<close>, the prefix followed by the branch's text.\<close>
  "intelligent_fallback question context =
     (let question_lower = py_lower question
      in \<lparr>answer = context_info question_lower context @ canned_answer question_lower,
          links = extract_links_from_context context\<rparr>)"

section \<open>Generation boundary and Rate-Limited Orchestrator\<close>

definition process_ai_response :: "(string \<Rightarrow> nat) \<Rightarrow> string \<Rightarrow> string \<Rightarrow> string \<Rightarrow> answer_payload" where
  \<comment> \<open>\<open>json.dumps\<close> of a dict of strings returns, so the \<open>except\<close> branch is never taken\<close>
  "process_ai_response rank ai_response context question =
     \<lparr>answer = clean_answer_text ai_response,
      links = extract_relevant_links rank context question\<rparr>"

definition ai_generate_answer ::
  "(string \<Rightarrow> nat) \<Rightarrow> ai_service \<Rightarrow> string \<Rightarrow> string \<Rightarrow> string \<Rightarrow> answer_payload \<times> event list" where
  \<comment> \<open>\<open>AIService.generate_answer\<close>. The exceptions of the endpoint are caught inside
      \<open>generate_with_retry\<close>; the outer \<open>except\<close> returns the same category fallback
      as the two branches below.\<close>
  "ai_generate_answer rank self question context image_context =
     (case model self of
        None \<Rightarrow> (fallback_response question, [])
      | Some m \<Rightarrow>
          if \<not> is_initialized self then (fallback_response question, [])
          else (let prompt = create_prompt question context image_context
                in case generate_with_retry m prompt 2 of
                     (Some ai_response, events) \<Rightarrow>
                       if ai_response \<noteq> []
                       then (process_ai_response rank ai_response context question, events)
                       else (fallback_response question, events)
                   | (None, events) \<Rightarrow> (fallback_response question, events)))"

record multi_ai_service =
  gemini_service :: ai_service
  last_request_time :: real
  min_delay :: real
  request_count :: int
  daily_limit :: int

definition MultiAIService_init :: "string \<Rightarrow> gen_model option \<Rightarrow> multi_ai_service" where
  "MultiAIService_init api_key client =
     \<lparr>gemini_service = AIService_init api_key client,
      last_request_time = 0,
      min_delay = 5,
      request_count = 0,
      daily_limit = 50\<rparr>"

record clock =
  current_time :: real
  stamp_time :: real

definition generate_answer ::
  "(string \<Rightarrow> nat) \<Rightarrow> clock \<Rightarrow> multi_ai_service \<Rightarrow> string \<Rightarrow> string \<Rightarrow> string \<Rightarrow>
   answer_payload \<times> multi_ai_service \<times> event list" where
  \<comment> \<open>\<open>MultiAIService.generate_answer\<close>. The two readings of \<open>time.time()\<close>, at lines 279
      and 287, are the fields of \<open>clk\<close>. The result is the payload, the service after the
      call and the events of the call.\<close>
  "generate_answer rank clk self question context image_context =
     (if request_count self \<ge> daily_limit self
      then (intelligent_fallback question context, self, [])
      else
        (let time_since_last = current_time clk - last_request_time self;
             waits = (if time_since_last < min_delay self
                      then [Sleep (min_delay self - time_since_last)] else []);
             self = self\<lparr>last_request_time := stamp_time clk,
                         request_count := request_count self + 1\<rparr>
         in if is_initialized (gemini_service self) then
              (case ai_generate_answer rank (gemini_service self) question context image_context of
                 (response, events) \<Rightarrow>
                   if answer response \<noteq> [] \<and>
                      \<not> py_in ''currently unable to process'' (py_lower (answer response))
                   then (response, self, waits @ events)
                   else (intelligent_fallback question context, self, waits @ events))
            else (intelligent_fallback question context, self, waits)))"

section \<open>The request handler\<close>

text \<open>
  \<open>virtual_ta_api\<close> from line 59 on, for a request that passed the input checks and
  carries no image: it constructs the two services, retrieves the context, asks the
  orchestrator and validates the payload. What a request finds outside the process is its
  environment: the configured key, the endpoint, the order sets iterate in and the clock.
\<close>

record environment =
  api_key :: string
  client :: "gen_model option"
  set_rank :: "string \<Rightarrow> nat"
  clk :: clock

definition link_to_py :: "link \<Rightarrow> pyval" where
  "link_to_py l = PDict [(''url'', PStr (link_url l)), (''text'', PStr (link_text l))]"

definition payload_to_py :: "answer_payload \<Rightarrow> pyval" where
  "payload_to_py p =
     PDict [(''answer'', PStr (answer p)), (''links'', PList (map link_to_py (links p)))]"

definition str_unused :: "pyval \<Rightarrow> string" where
  \<comment> \<open>a stand-in for \<open>str()\<close> on values that are not strings, for payloads that hold
      strings only\<close>
  "str_unused v = []"

definition serve_question :: "environment \<Rightarrow> string \<Rightarrow> pyval \<times> multi_ai_service \<times> event list" where
  \<comment> \<open>the validated response, the orchestrator the request constructed as the request
      leaves it, and the events of the request\<close>
  "serve_question env question =
     (let ai_service = MultiAIService_init (api_key env) (client env);
          data_scraper = DataScraper_init;
          context = search_relevant_content data_scraper question;
          image_context = []
      in case generate_answer (set_rank env) (clk env) ai_service question context image_context of
           (answer_data, ai_service, events) \<Rightarrow>
             (validate_response_structure str_unused (payload_to_py answer_data),
              ai_service, events))"

definition serve_all :: "(environment \<times> string) list \<Rightarrow> (pyval \<times> multi_ai_service \<times> event list) list" where
  \<comment> \<open>the requests a process serves one after the other; the handler keeps nothing from
      one request to the next\<close>
  "serve_all requests = map (\<lambda>(env, question). serve_question env question) requests"

definition generation_calls :: "event list \<Rightarrow> nat" where
  "generation_calls events = length (filter (\<lambda>e. case e of Call p \<Rightarrow> True | Sleep d \<Rightarrow> False) events)"

section \<open>The claims' own words, for comparison with the code\<close>

definition claimed_tag_matches :: "string list \<Rightarrow> string \<Rightarrow> nat" where
  \<comment> \<open>a tag matches when it is a member of the question's word set\<close>
  "claimed_tag_matches tags question_lower =
     length (filter (\<lambda>tag. tag \<in> set (py_split question_lower)) tags)"

definition claimed_course_score :: "section_data \<Rightarrow> string \<Rightarrow> nat" where
  "claimed_course_score sec question_lower =
     2 * claimed_tag_matches (sec_topics sec) question_lower +
     card {word \<in> set (py_split question_lower). py_in word (py_lower (sec_content sec))}"

definition claimed_post_score :: "forum_post \<Rightarrow> string \<Rightarrow> nat" where
  "claimed_post_score post question_lower =
     3 * claimed_tag_matches (post_tags post) question_lower +
     2 * card {word \<in> set (py_split question_lower). py_in word (py_lower (post_title post))} +
     card {word \<in> set (py_split question_lower). py_in word (py_lower (post_content post))}"

fun first_bucket :: "(string list \<times> 'a) list \<Rightarrow> 'a \<Rightarrow> string \<Rightarrow> 'a" where
  \<comment> \<open>the buckets are checked in their order, and the first one with a keyword that occurs
      in the lowercased question wins\<close>
  "first_bucket [] generic question_lower = generic"
| "first_bucket ((keywords, result) # buckets) generic question_lower =
     (if any_in keywords question_lower then result
      else first_bucket buckets generic question_lower)"

definition forum_link :: "string \<Rightarrow> link list" where
  "forum_link label = [\<lparr>link_url = forum_root, link_text = label\<rparr>]"

definition category_buckets :: "(string list \<times> answer_payload) list" where
  \<comment> \<open>the category fallback: AI/model, Python/setup, assignment, version control, debugging\<close>
  "category_buckets =
     [([''gpt'', ''openai'', ''api'', ''model'', ''ai''],
       \<lparr>answer = ai_model_answer, links = forum_link ''AI Model Usage Help''\<rparr>),
      ([''python'', ''setup'', ''install'', ''environment'', ''pip''],
       \<lparr>answer = python_setup_answer, links = forum_link ''Python Setup Help''\<rparr>),
      ([''assignment'', ''submit'', ''deadline'', ''homework'', ''ga''],
       \<lparr>answer = assignment_answer, links = forum_link ''Assignment Guidelines''\<rparr>),
      ([''git'', ''version'', ''control'', ''github'', ''commit''],
       \<lparr>answer = git_answer, links = forum_link ''Git Version Control''\<rparr>),
      ([''error'', ''debug'', ''fix'', ''problem'', ''issue''],
       \<lparr>answer = debugging_answer, links = forum_link ''Debugging Help''\<rparr>)]"

definition generic_payload :: answer_payload where
  "generic_payload = \<lparr>answer = high_demand_answer, links = forum_link ''TDS Course Forum''\<rparr>"

definition context_buckets :: "(string list \<times> string) list" where
  \<comment> \<open>the context-aware fallback: AI/model, Python/setup, assignment\<close>
  "context_buckets =
     [([''gpt'', ''openai'', ''api'', ''model''], ctx_ai_model_answer),
      ([''python'', ''setup'', ''environment''], ctx_python_answer),
      ([''assignment'', ''submit'', ''homework''], ctx_assignment_answer)]"

definition shares_long_word :: "string \<Rightarrow> string \<Rightarrow> bool" where
  \<comment> \<open>the sentence shares with the question a word longer than 3 characters\<close>
  "shares_long_word question_lower sentence =
     list_ex (\<lambda>word. length word > 3 \<and> py_in word (py_lower sentence)) (py_split question_lower)"

definition mined_prefix :: "string \<Rightarrow> string \<Rightarrow> string" where
  \<comment> \<open>at most 2 of the qualifying sentences among the first 10, as the prefix\<close>
  "mined_prefix question_lower context =
     (let qualifying = filter (shares_long_word question_lower)
                         (take 10 (py_split_sep ''.'' context))
      in if qualifying = [] then []
         else ''Based on course materials: '' @ py_join ''. '' (map py_strip (take 2 qualifying)) @
              ''. '')"

definition forum_base :: string where
  "forum_base = ''https://discourse.onlinedegree.iitm.ac.in''"

definition on_forum :: "link \<Rightarrow> bool" where
  "on_forum l = prefix forum_base (link_url l)"

section \<open>Endpoints and inputs of the examples\<close>

definition always_ok :: gen_model where
  \<comment> \<open>an endpoint that answers every call\<close>
  "always_ok prompt attempt = Text ''ok''"

definition quota_client :: gen_model where
  \<comment> \<open>an endpoint that is out of quota\<close>
  "quota_client prompt attempt = Raises ''HTTP 429: Quota Exceeded''"

definition flaky_client :: gen_model where
  \<comment> \<open>an endpoint that fails once and then answers\<close>
  "flaky_client prompt attempt =
     (if attempt = 0 then Raises ''503 Service Unavailable'' else Text '' ok '')"

definition env_ok :: environment where
  "env_ok = \<lparr>api_key = ''key'', client = Some always_ok, set_rank = length,
             clk = \<lparr>current_time = 1000, stamp_time = 1000\<rparr>\<rparr>"

definition two_topics_context :: string where
  \<comment> \<open>a context that names one topic twice and then a second topic\<close>
  "two_topics_context =
     ''URL: https://discourse.onlinedegree.iitm.ac.in/t/python-setup-issues/156001 and '' @
     ''https://discourse.onlinedegree.iitm.ac.in/t/python-setup-issues/156001 then '' @
     ''https://discourse.onlinedegree.iitm.ac.in/t/api-rate-limiting/155876''"

definition setup_context :: string where
  \<comment> \<open>a context of two sentences, longer than 50 characters\<close>
  "setup_context =
     ''Python setup needs a virtual environment. Use pip to install packages.''"

definition no_context :: string where
  \<comment> \<open>line 76 of \<open>views.py\<close>\<close>
  "no_context = ''Unable to retrieve specific course context.''"

section \<open>Properties of the Response Validator\<close>

lemma default_link_ok: "link_ok default_link"
  by (simp add: default_link_def link_ok_def forum_root_def)

lemma validate_links_step:
  "validate_links str_of (link # rest) = validate_links str_of rest \<or>
   (\<exists>url tx. url \<noteq> [] \<and> tx \<noteq> [] \<and> prefix ''http'' url \<and>
      validate_links str_of (link # rest) =
        PDict [(''url'', PStr url), (''text'', PStr tx)] # validate_links str_of rest)"
  by (simp add: Let_def split: pyval.split option.split)

lemma validate_links_all_ok: "list_all link_ok (validate_links str_of ls)"
proof (induction ls)
  case Nil
  show ?case by simp
next
  case (Cons link rest)
  from validate_links_step [of str_of link rest] show ?case
  proof
    assume "validate_links str_of (link # rest) = validate_links str_of rest"
    with Cons show ?thesis by simp
  next
    assume "\<exists>url tx. url \<noteq> [] \<and> tx \<noteq> [] \<and> prefix ''http'' url \<and>
      validate_links str_of (link # rest) =
        PDict [(''url'', PStr url), (''text'', PStr tx)] # validate_links str_of rest"
    then obtain url tx where "url \<noteq> []" "tx \<noteq> []" "prefix ''http'' url"
      and eq: "validate_links str_of (link # rest) =
        PDict [(''url'', PStr url), (''text'', PStr tx)] # validate_links str_of rest"
      by blast
    then have "link_ok (PDict [(''url'', PStr url), (''text'', PStr tx)])"
      by (simp add: link_ok_def)
    with Cons show ?thesis
      unfolding eq by simp
  qed
qed

lemma clean_answer_length:
  "1 \<le> length (clean_answer str_of a) \<and> length (clean_answer str_of a) \<le> 2000"
  by (auto simp: clean_answer_def Let_def Suc_le_eq)

lemma safe_default_contract: "output_contract safe_default"
  by (simp add: output_contract_def safe_default_def answer_of_def links_of_def
      default_link_def link_ok_def forum_root_def)

lemma validate_body_dict:
  fixes d0 :: "(string \<times> pyval) list"
  defines "d1 \<equiv> (if map_of d0 ''answer'' = None
      then AList.update ''answer'' (PStr ''Unable to generate a proper response.'') d0 else d0)"
  defines "d2 \<equiv> (if map_of d1 ''links'' = None then AList.update ''links'' (PList []) d1 else d1)"
  shows "\<exists>a l v. map_of d2 ''answer'' = Some a \<and> map_of d2 ''links'' = Some l \<and>
           v = validate_links str_of (case l of PList ls \<Rightarrow> ls | _ \<Rightarrow> []) \<and>
           validate_body str_of (PDict d0) =
             (if json_dumps_ok (PDict (AList.update ''links'' (PList (if v = [] then [default_link] else v))
                    (AList.update ''answer'' (PStr (clean_answer str_of a)) d2)))
              then Inr (PDict (AList.update ''links'' (PList (if v = [] then [default_link] else v))
                    (AList.update ''answer'' (PStr (clean_answer str_of a)) d2)))
              else Inl TypeError)"
proof -
  have "\<exists>a. map_of d1 ''answer'' = Some a"
    unfolding d1_def by (cases "map_of d0 ''answer''") (simp_all add: update_conv')
  moreover have "map_of d2 ''answer'' = map_of d1 ''answer''"
    unfolding d2_def by (simp add: update_conv')
  moreover have "\<exists>l. map_of d2 ''links'' = Some l"
    unfolding d2_def by (cases "map_of d1 ''links''") (simp_all add: update_conv')
  ultimately obtain a l
    where a: "map_of d2 ''answer'' = Some a" and l: "map_of d2 ''links'' = Some l"
    by auto
  define d3 where "d3 = AList.update ''answer'' (PStr (clean_answer str_of a)) d2"
  have l3: "map_of d3 ''links'' = Some l"
    using l by (simp add: d3_def update_conv')
  define v where "v = validate_links str_of (case l of PList ls \<Rightarrow> ls | _ \<Rightarrow> [])"
  define vl where "vl = (if v = [] then [default_link] else v)"
  define d4 where "d4 = AList.update ''links'' (PList vl) d3"
  have body: "validate_body str_of (PDict d0) =
      (if json_dumps_ok (PDict d4) then Inr (PDict d4) else Inl TypeError)"
    unfolding validate_body_def pyval.case Let_def
    unfolding d1_def [symmetric]
    unfolding d2_def [symmetric] a option.case
    unfolding d3_def [symmetric] l3 option.case
    unfolding v_def [symmetric]
    unfolding vl_def [symmetric]
    unfolding d4_def [symmetric] ..
  show ?thesis
    using a l body unfolding d4_def vl_def d3_def v_def by blast
qed

lemma validate_body_contract:
  assumes "validate_body str_of response = Inr r"
  shows "output_contract r"
proof -
  from assms obtain d0 where resp: "response = PDict d0"
    by (cases response) (simp_all add: validate_body_def)
  from validate_body_dict [of d0 str_of] obtain d2 a v where
    body: "validate_body str_of (PDict d0) =
             (if json_dumps_ok (PDict (AList.update ''links'' (PList (if v = [] then [default_link] else v))
                    (AList.update ''answer'' (PStr (clean_answer str_of a)) d2)))
              then Inr (PDict (AList.update ''links'' (PList (if v = [] then [default_link] else v))
                    (AList.update ''answer'' (PStr (clean_answer str_of a)) d2)))
              else Inl TypeError)"
    and v: "\<exists>l. v = validate_links str_of l"
    by blast
  define d4 where "d4 = AList.update ''links'' (PList (if v = [] then [default_link] else v))
                    (AList.update ''answer'' (PStr (clean_answer str_of a)) d2)"
  have r: "r = PDict d4"
    using assms unfolding resp body d4_def [symmetric]
    by (cases "json_dumps_ok (PDict d4)") simp_all
  have ans: "answer_of r = Some (clean_answer str_of a)"
    by (simp add: r answer_of_def d4_def update_conv')
  have lks: "links_of r = Some (if v = [] then [default_link] else v)"
    by (simp add: r links_of_def d4_def update_conv')
  have vl_ok: "list_all link_ok (if v = [] then [default_link] else v)"
    using v by (auto simp: validate_links_all_ok default_link_ok)
  show ?thesis
    using clean_answer_length [of str_of a] vl_ok
    by (simp add: output_contract_def ans lks)
qed

text \<open>
  Claim C1. For every input payload, whatever its shape (not a dict, keys missing, an
  answer that is not a string, an empty or blank answer, malformed links, values that
  cannot be serialised), the Response Validator returns a payload that satisfies the
  output contract: the answer has between 1 and 2000 characters, there is at least one
  link, and every link has a url that is not empty and starts with \<open>http\<close> and a text
  that is not empty. Every exception of the body is a value of \<open>validate_body\<close> and is
  turned into the fixed payload, so the function returns on every input.
\<close>

theorem validate_response_structure_contract:
  "output_contract (validate_response_structure str_of response)"
proof (cases "validate_body str_of response")
  case (Inl e)
  then show ?thesis
    by (simp add: validate_response_structure_def safe_default_contract)
next
  case (Inr r)
  then show ?thesis
    by (simp add: validate_response_structure_def validate_body_contract)
qed

theorem validate_response_structure_contract_witness:
  "validate_response_structure str_unused (PList [PInt 3]) = safe_default \<and>
   output_contract (validate_response_structure str_unused (PList [PInt 3]))"
  using validate_response_structure_contract [of str_unused "PList [PInt 3]"]
  by (simp add: validate_response_structure_def validate_body_def)

lemma json_ok_update:
  "json_dumps_ok v \<Longrightarrow> list_all json_dumps_ok (map snd al) \<Longrightarrow>
   list_all json_dumps_ok (map snd (AList.update k v al))"
  by (induction al) auto

lemma json_ok_validate_links: "list_all json_dumps_ok (validate_links str_of ls)"
proof (induction ls)
  case Nil
  show ?case by simp
next
  case (Cons link rest)
  from validate_links_step [of str_of link rest] Cons show ?case
    by auto
qed

lemma json_ok_default_link: "json_dumps_ok default_link"
  by (simp add: default_link_def)

lemma validate_string_answer:
  assumes ans: "map_of d ''answer'' = Some (PStr s)" and ok: "json_dumps_ok (PDict d)"
  shows "answer_of (validate_response_structure str_of (PDict d)) =
           Some (clean_answer str_of (PStr s))"
proof -
  define d2 where "d2 = (if map_of d ''links'' = None then AList.update ''links'' (PList []) d else d)"
  have d2_ans: "map_of d2 ''answer'' = Some (PStr s)"
    using ans by (simp add: d2_def update_conv')
  have d2_ok: "list_all json_dumps_ok (map snd d2)"
    using ok by (simp add: d2_def json_ok_update)
  have d1: "(if map_of d ''answer'' = None
      then AList.update ''answer'' (PStr ''Unable to generate a proper response.'') d else d) = d"
    using ans by simp
  from validate_body_dict [of d str_of, unfolded d1, folded d2_def] obtain a v where
    a: "map_of d2 ''answer'' = Some a"
    and v: "\<exists>l. v = validate_links str_of l"
    and body: "validate_body str_of (PDict d) =
             (if json_dumps_ok (PDict (AList.update ''links'' (PList (if v = [] then [default_link] else v))
                    (AList.update ''answer'' (PStr (clean_answer str_of a)) d2)))
              then Inr (PDict (AList.update ''links'' (PList (if v = [] then [default_link] else v))
                    (AList.update ''answer'' (PStr (clean_answer str_of a)) d2)))
              else Inl TypeError)"
    by blast
  have a_eq: "a = PStr s"
    using a d2_ans by simp
  define d4 where "d4 = AList.update ''links'' (PList (if v = [] then [default_link] else v))
                    (AList.update ''answer'' (PStr (clean_answer str_of a)) d2)"
  have "json_dumps_ok (PList (if v = [] then [default_link] else v))"
    using v by (auto simp: json_ok_validate_links json_ok_default_link)
  then have "json_dumps_ok (PDict d4)"
    using d2_ok by (simp add: d4_def json_ok_update)
  then have "validate_response_structure str_of (PDict d) = PDict d4"
    unfolding validate_response_structure_def body d4_def [symmetric] by simp
  then show ?thesis
    by (simp add: answer_of_def d4_def update_conv' a_eq)
qed

lemma py_strip_unchanged:
  assumes "s \<noteq> []" "\<not> py_isspace (hd s)" "\<not> py_isspace (last s)"
  shows "py_strip s = s"
proof -
  from assms have "dropWhile py_isspace s = s"
    by (cases s) simp_all
  moreover from assms have "dropWhile py_isspace (rev s) = rev s"
    by (cases "rev s") (simp_all add: hd_rev)
  ultimately show ?thesis
    by (simp add: py_strip_def)
qed

lemma py_strip_trailing:
  assumes "s \<noteq> []" "\<not> py_isspace (hd s)" "\<not> py_isspace (last s)" "list_all py_isspace t"
  shows "py_strip (s @ t) = s"
proof -
  from assms have "dropWhile py_isspace (s @ t) = s @ t"
    by (cases s) simp_all
  moreover have "dropWhile py_isspace (rev t @ rev s) = dropWhile py_isspace (rev s)"
  proof (rule dropWhile_append2)
    fix x assume "x \<in> set (rev t)"
    with assms show "py_isspace x" by (simp add: list_all_iff)
  qed
  moreover from assms have "dropWhile py_isspace (rev s) = rev s"
    by (cases "rev s") (simp_all add: hd_rev)
  ultimately show ?thesis
    by (simp add: py_strip_def)
qed

text \<open>
  Claim C9, as amended. The validator trims the answer before it measures it. For every
  dict payload that \<open>json.dumps\<close> accepts and whose answer is a string: when the trimmed
  answer is longer than 2000 characters, the result is its first 1997 characters followed
  by \<open>...\<close>, of length exactly 2000; when the trimmed answer has between 1 and 2000
  characters, it is returned as trimmed, with nothing cut.
\<close>

theorem validate_truncates_trimmed_answer:
  assumes "map_of d ''answer'' = Some (PStr s)" and "json_dumps_ok (PDict d)"
  shows "(2000 < length (py_strip s) \<longrightarrow>
            answer_of (validate_response_structure str_of (PDict d)) =
              Some (take 1997 (py_strip s) @ ''...'') \<and>
            length (take 1997 (py_strip s) @ ''...'') = 2000 \<and>
            suffix ''...'' (take 1997 (py_strip s) @ ''...'')) \<and>
         (1 \<le> length (py_strip s) \<and> length (py_strip s) \<le> 2000 \<longrightarrow>
            answer_of (validate_response_structure str_of (PDict d)) = Some (py_strip s))"
  using validate_string_answer [OF assms, of str_of]
  by (auto simp: clean_answer_def Let_def suffix_def)

theorem validate_truncates_trimmed_answer_witness:
  "2000 < length (py_strip (replicate 2500 (CHR ''x''))) \<and>
   answer_of (validate_response_structure str_unused
       (PDict [(''answer'', PStr (replicate 2500 (CHR ''x''))), (''links'', PList [])])) =
     Some (replicate 1997 (CHR ''x'') @ ''...'')"
proof -
  have strip: "py_strip (replicate 2500 (CHR ''x'')) = replicate 2500 (CHR ''x'')"
    by (rule py_strip_unchanged) (simp_all add: py_isspace_def)
  have "map_of [(''answer'', PStr (replicate 2500 (CHR ''x''))), (''links'', PList [])] ''answer''
          = Some (PStr (replicate 2500 (CHR ''x'')))"
    by simp
  moreover have "json_dumps_ok (PDict [(''answer'', PStr (replicate 2500 (CHR ''x''))), (''links'', PList [])])"
    by simp
  ultimately show ?thesis
    using validate_truncates_trimmed_answer [of _ "replicate 2500 (CHR ''x'')" str_unused]
    by (simp add: strip)
qed

text \<open>
  The claim as stated fails on an answer that is longer than 2000 characters only by its
  surrounding whitespace: 1999 letters followed by two blanks come back as the 1999
  letters, with no ellipsis.
\<close>

theorem padded_answer_counterexample:
  "2000 < length (replicate 1999 (CHR ''x'') @ ''  '') \<and>
   answer_of (validate_response_structure str_unused
       (PDict [(''answer'', PStr (replicate 1999 (CHR ''x'') @ ''  '')), (''links'', PList [])])) =
     Some (replicate 1999 (CHR ''x'')) \<and>
   length (replicate 1999 (CHR ''x'')) = 1999 \<and>
   \<not> suffix ''...'' (replicate 1999 (CHR ''x''))"
proof -
  have strip: "py_strip (replicate 1999 (CHR ''x'') @ ''  '') = replicate 1999 (CHR ''x'')"
    by (rule py_strip_trailing) (simp_all add: py_isspace_def)
  have "answer_of (validate_response_structure str_unused
       (PDict [(''answer'', PStr (replicate 1999 (CHR ''x'') @ ''  '')), (''links'', PList [])])) =
     Some (clean_answer str_unused (PStr (replicate 1999 (CHR ''x'') @ ''  '')))"
    by (rule validate_string_answer) simp_all
  moreover have "clean_answer str_unused (PStr (replicate 1999 (CHR ''x'') @ ''  '')) =
      replicate 1999 (CHR ''x'')"
    unfolding clean_answer_def pyval.case Let_def strip by simp
  moreover have "\<not> suffix ''...'' (replicate 1999 (CHR ''x''))"
    by (auto simp: suffix_def append_eq_conv_conj dest!: arg_cong [where f = last])
  ultimately show ?thesis by simp
qed

section \<open>Properties of the orchestrator and of the retry loop\<close>

text \<open>
  Claim C2. In every state of the orchestrator in which the recorded number of calls has
  reached the daily limit, \<open>generate_answer\<close> returns the context-aware fallback for the
  question and the context, leaves the state as it is, and has no event: the Generation
  Client is not called and nothing sleeps.
\<close>

theorem daily_limit_skips_generation:
  assumes "daily_limit self \<le> request_count self"
  shows "generate_answer rank c self question ctx img =
           (intelligent_fallback question ctx, self, [])"
  using assms by (simp add: generate_answer_def)

theorem daily_limit_skips_generation_witness:
  "daily_limit ((MultiAIService_init ''key'' (Some always_ok))\<lparr>request_count := 50\<rparr>)
     \<le> request_count ((MultiAIService_init ''key'' (Some always_ok))\<lparr>request_count := 50\<rparr>) \<and>
   generate_answer length \<lparr>current_time = 100, stamp_time = 100\<rparr>
       ((MultiAIService_init ''key'' (Some always_ok))\<lparr>request_count := 50\<rparr>)
       ''What is pandas?'' [] [] =
     (intelligent_fallback ''What is pandas?'' [],
      (MultiAIService_init ''key'' (Some always_ok))\<lparr>request_count := 50\<rparr>, [])"
proof -
  have h: "daily_limit ((MultiAIService_init ''key'' (Some always_ok))\<lparr>request_count := 50\<rparr>)
     \<le> request_count ((MultiAIService_init ''key'' (Some always_ok))\<lparr>request_count := 50\<rparr>)"
    by (simp add: MultiAIService_init_def)
  show ?thesis
    using h daily_limit_skips_generation [OF h] by simp
qed

lemma upt_two: "[0..<2] = [0, 1]"
  by (simp add: upt_rec)

lemma retry_loop_calls:
  "generation_calls (snd (retry_loop m prompt k attempts)) \<le> length attempts"
  by (induction attempts)
     (auto simp: generation_calls_def split: outcome.split prod.split)

lemma retry_loop_sleeps:
  "Sleep d \<in> set (snd (retry_loop m prompt k attempts)) \<Longrightarrow> d = 1"
  by (induction attempts)
     (auto split: outcome.splits prod.splits if_splits)

lemma retry_loop_all_raise:
  assumes "\<And>attempt. \<exists>e. m prompt attempt = Raises e"
  shows "fst (retry_loop m prompt k attempts) = None"
proof (induction attempts)
  case Nil
  show ?case by simp
next
  case (Cons attempt rest)
  from assms obtain e where "m prompt attempt = Raises e" by blast
  with Cons show ?case
    by (auto split: prod.splits)
qed

lemma quota_first_attempt:
  "m prompt 0 = Raises e \<Longrightarrow> is_quota_error (py_lower e) \<Longrightarrow>
   generate_with_retry m prompt 2 = (None, [Call prompt])"
  by (simp add: generate_with_retry_def upt_two)

lemma transient_first_attempt:
  "m prompt 0 = Raises e \<Longrightarrow> \<not> is_quota_error (py_lower e) \<Longrightarrow>
   snd (generate_with_retry m prompt 2) = [Call prompt, Sleep 1, Call prompt] \<and>
   fst (generate_with_retry m prompt 2) =
     (case m prompt 1 of Text t \<Rightarrow> if t \<noteq> [] then Some (py_strip t) else None
                       | Raises e' \<Rightarrow> None)"
  by (simp add: generate_with_retry_def upt_two split: outcome.split)

text \<open>
  Claim C3. An exception of the endpoint is the outcome \<open>Raises\<close>; the retry loop turns
  each one into a value. When the message of the first attempt's exception, lowercased,
  contains \<open>429\<close>, \<open>quota\<close> or \<open>exceeded\<close>, the loop returns the no-result signal after
  that single call, with no sleep and no second attempt, and the generation boundary
  answers with the category fallback. Any other exception of the first attempt is followed
  by a sleep of one second and exactly one more call, whose outcome decides the result.
  Whatever the endpoint does, there are at most 2 calls, every sleep lasts one second, and
  an endpoint that raises at every attempt gives the category fallback.
\<close>

theorem quota_error_aborts_retries:
  "(m prompt 0 = Raises e \<and> is_quota_error (py_lower e) \<longrightarrow>
      generate_with_retry m prompt 2 = (None, [Call prompt])) \<and>
   (m prompt 0 = Raises e \<and> \<not> is_quota_error (py_lower e) \<longrightarrow>
      snd (generate_with_retry m prompt 2) = [Call prompt, Sleep 1, Call prompt] \<and>
      fst (generate_with_retry m prompt 2) =
        (case m prompt 1 of Text t \<Rightarrow> if t \<noteq> [] then Some (py_strip t) else None
                         | Raises e' \<Rightarrow> None)) \<and>
   generation_calls (snd (generate_with_retry m prompt 2)) \<le> 2 \<and>
   (Sleep d \<in> set (snd (generate_with_retry m prompt 2)) \<longrightarrow> d = 1) \<and>
   (model self = Some m \<and> is_initialized self \<and>
    m (create_prompt question ctx img) 0 = Raises e \<and>
    is_quota_error (py_lower e) \<longrightarrow>
      ai_generate_answer rank self question ctx img =
        (fallback_response question, [Call (create_prompt question ctx img)])) \<and>
   (model self = Some m \<and> is_initialized self \<and>
    (\<forall>attempt. \<exists>e'. m (create_prompt question ctx img) attempt = Raises e') \<longrightarrow>
      fst (ai_generate_answer rank self question ctx img) =
        fallback_response question)"
proof -
  have c: "generation_calls (snd (generate_with_retry m prompt 2)) \<le> 2"
    using retry_loop_calls [of m prompt 2 "[0..<2]"] by (simp add: generate_with_retry_def)
  have s: "Sleep d \<in> set (snd (generate_with_retry m prompt 2)) \<longrightarrow> d = 1"
    using retry_loop_sleeps [of d m prompt 2 "[0..<2]"] by (simp add: generate_with_retry_def)
  have q: "model self = Some m \<and> is_initialized self \<and>
    m (create_prompt question ctx img) 0 = Raises e \<and>
    is_quota_error (py_lower e) \<longrightarrow>
      ai_generate_answer rank self question ctx img =
        (fallback_response question, [Call (create_prompt question ctx img)])"
    using quota_first_attempt [of m "create_prompt question ctx img" e]
    by (auto simp: ai_generate_answer_def Let_def)
  have r: "model self = Some m \<and> is_initialized self \<and>
    (\<forall>attempt. \<exists>e'. m (create_prompt question ctx img) attempt = Raises e') \<longrightarrow>
      fst (ai_generate_answer rank self question ctx img) =
        fallback_response question"
  proof (intro impI, elim conjE)
    assume m: "model self = Some m" and i: "is_initialized self"
      and a: "\<forall>attempt. \<exists>e'. m (create_prompt question ctx img) attempt = Raises e'"
    from a have "fst (generate_with_retry m (create_prompt question ctx img) 2) = None"
      unfolding generate_with_retry_def by (intro retry_loop_all_raise) blast
    with m i show "fst (ai_generate_answer rank self question ctx img) =
        fallback_response question"
      by (cases "generate_with_retry m (create_prompt question ctx img) 2")
         (simp add: ai_generate_answer_def Let_def)
  qed
  from quota_first_attempt [of m prompt e] transient_first_attempt [of m prompt e] c s q r
  show ?thesis by blast
qed

lemma quota_client_message: "is_quota_error (py_lower ''HTTP 429: Quota Exceeded'')"
  by (simp add: is_quota_error_def py_lower_def lower_char_def upper_letters_def
      lower_letters_def)

lemma flaky_client_message: "\<not> is_quota_error (py_lower ''503 Service Unavailable'')"
  by (simp add: is_quota_error_def py_lower_def lower_char_def upper_letters_def
      lower_letters_def)

theorem quota_error_aborts_retries_witness:
  "generate_with_retry quota_client ''prompt'' 2 = (None, [Call ''prompt'']) \<and>
   generate_with_retry flaky_client ''prompt'' 2 =
     (Some ''ok'', [Call ''prompt'', Sleep 1, Call ''prompt'']) \<and>
   ai_generate_answer length \<lparr>model = Some quota_client, is_initialized = True\<rparr>
       ''What is pandas?'' [] [] =
     (fallback_response ''What is pandas?'', [Call (create_prompt ''What is pandas?'' [] [])])"
proof -
  have strip: "py_strip '' ok '' = ''ok''"
    by (simp add: py_strip_def py_isspace_def)
  have a: "generate_with_retry quota_client ''prompt'' 2 = (None, [Call ''prompt''])"
    using quota_error_aborts_retries [of quota_client "''prompt''" "''HTTP 429: Quota Exceeded''"]
      quota_client_message
    by (simp add: quota_client_def)
  have b: "generate_with_retry flaky_client ''prompt'' 2 =
     (Some ''ok'', [Call ''prompt'', Sleep 1, Call ''prompt''])"
    using quota_error_aborts_retries [of flaky_client "''prompt''" "''503 Service Unavailable''"]
      flaky_client_message
    by (simp add: flaky_client_def strip prod_eq_iff)
  have c: "ai_generate_answer length \<lparr>model = Some quota_client, is_initialized = True\<rparr>
       ''What is pandas?'' [] [] =
     (fallback_response ''What is pandas?'', [Call (create_prompt ''What is pandas?'' [] [])])"
    using quota_error_aborts_retries [where m = quota_client
        and e = "''HTTP 429: Quota Exceeded''"
        and self = "\<lparr>model = Some quota_client, is_initialized = True\<rparr>"
        and question = "''What is pandas?''" and ctx = "[]" and img = "[]"
        and rank = length]
      quota_client_message
    by (simp add: quota_client_def)
  from a b c show ?thesis by simp
qed

section \<open>Properties of the Link Extractor\<close>

lemma forum_base_topic: "prefix forum_base forum_topic_prefix"
  by (simp add: forum_base_def forum_topic_prefix_def)

lemma match_forum_url_prefix:
  "match_forum_url s = Some m \<Longrightarrow> prefix forum_topic_prefix m"
  by (auto simp: match_forum_url_def Let_def split: if_splits list.splits)

lemma findall_forum_urls_prefix:
  "u \<in> set (findall_forum_urls s) \<Longrightarrow> prefix forum_topic_prefix u"
proof (induction s rule: findall_forum_urls.induct)
  case 1
  then show ?case by simp
next
  case (2 c cs)
  then show ?case
    by (cases "match_forum_url (c # cs)") (auto dest: match_forum_url_prefix)
qed

lemma url_label_links: "map link_url (label_links i us) = us"
  by (induction us arbitrary: i) simp_all

lemma url_number_links: "map link_url (number_links i us) = us"
  by (induction us arbitrary: i) simp_all

lemma on_forum_urls:
  assumes "\<And>u. u \<in> set (map link_url ls) \<Longrightarrow> prefix forum_topic_prefix u"
  shows "list_all on_forum ls"
  unfolding list_all_iff on_forum_def
proof
  fix l assume "l \<in> set ls"
  then have "prefix forum_topic_prefix (link_url l)"
    using assms by simp
  with forum_base_topic show "prefix forum_base (link_url l)"
    by (rule prefix_order.trans)
qed

lemma on_forum_extract_relevant_links:
  "list_all on_forum (extract_relevant_links rank ctx question)"
proof -
  have "u \<in> set (take 2 (py_set_list rank (findall_forum_urls ctx))) \<Longrightarrow>
        prefix forum_topic_prefix u" for u
    by (auto simp: py_set_list_def dest!: in_set_takeD findall_forum_urls_prefix)
  then have "list_all on_forum (label_links 0 (take 2 (py_set_list rank (findall_forum_urls ctx))))"
    by (intro on_forum_urls) (simp add: url_label_links)
  then show ?thesis
    by (simp add: extract_relevant_links_def Let_def on_forum_def forum_base_def
        assignment_forum_def forum_root_def)
qed

lemma on_forum_extract_links_from_context:
  "list_all on_forum (extract_links_from_context ctx)"
proof -
  have "u \<in> set (take 2 (findall_forum_urls ctx)) \<Longrightarrow> prefix forum_topic_prefix u" for u
    by (auto dest!: in_set_takeD findall_forum_urls_prefix)
  then have "list_all on_forum (number_links 0 (take 2 (findall_forum_urls ctx)))"
    by (intro on_forum_urls) (simp add: url_number_links)
  then show ?thesis
    by (simp add: extract_links_from_context_def Let_def on_forum_def forum_base_def forum_root_def)
qed

lemma on_forum_fallback_response: "list_all on_forum (links (fallback_response question))"
  by (simp add: fallback_response_def Let_def on_forum_def forum_base_def forum_root_def)

text \<open>
  Claim C10. For every question, every context and every order in which a set iterates,
  each link produced by the two link extractors and by the two fallback tiers (taken from
  the context, chosen by the question's keywords, or the default) has a url that starts
  with \<open>https://discourse.onlinedegree.iitm.ac.in\<close>.
\<close>

theorem every_link_on_forum:
  "list_all on_forum (extract_relevant_links rank ctx question) \<and>
   list_all on_forum (extract_links_from_context ctx) \<and>
   list_all on_forum (links (fallback_response question)) \<and>
   list_all on_forum (links (intelligent_fallback question ctx))"
  by (simp add: on_forum_extract_relevant_links on_forum_extract_links_from_context
      on_forum_fallback_response intelligent_fallback_def Let_def)

lemma findall_two_topics:
  "findall_forum_urls two_topics_context =
     [''https://discourse.onlinedegree.iitm.ac.in/t/python-setup-issues/156001'',
      ''https://discourse.onlinedegree.iitm.ac.in/t/python-setup-issues/156001'',
      ''https://discourse.onlinedegree.iitm.ac.in/t/api-rate-limiting/155876'']"
  by code_simp

theorem every_link_on_forum_witness:
  "map link_url (extract_links_from_context two_topics_context) =
     [''https://discourse.onlinedegree.iitm.ac.in/t/python-setup-issues/156001'',
      ''https://discourse.onlinedegree.iitm.ac.in/t/python-setup-issues/156001''] \<and>
   list_all on_forum (extract_links_from_context two_topics_context) \<and>
   list_all on_forum (extract_relevant_links length two_topics_context ''How do I submit?'') \<and>
   list_all on_forum (links (fallback_response ''How do I submit?'')) \<and>
   list_all on_forum (links (intelligent_fallback ''How do I submit?'' two_topics_context))"
  using every_link_on_forum [of length two_topics_context "''How do I submit?''"]
  by (simp add: extract_links_from_context_def findall_two_topics Let_def url_number_links)

lemma title_api_rate_limiting:
  "py_title (replace_char (CHR ''-'') (CHR '' '') ''api-rate-limiting'') = ''Api Rate Limiting''"
  by (simp add: py_title_def replace_char_def is_cased_def upper_char_def lower_char_def
      upper_letters_def lower_letters_def)

lemma title_python_setup_issues:
  "py_title (replace_char (CHR ''-'') (CHR '' '') ''python-setup-issues'') =
     ''Python Setup Issues''"
  by (simp add: py_title_def replace_char_def is_cased_def upper_char_def lower_char_def
      upper_letters_def lower_letters_def)

text \<open>
  Claim C6 on the code. On a context that names one topic twice and then a second topic,
  \<open>_extract_links_from_context\<close> emits the first topic twice and never the second: it
  removes no duplicate. \<open>_extract_relevant_links\<close> removes the duplicate, and emits the
  two topics in the order its set iterates in: with a set that iterates the shorter url
  first, the topic found last comes first.
\<close>

theorem link_extractors_on_repeated_topic:
  "extract_links_from_context two_topics_context =
     [\<lparr>link_url = ''https://discourse.onlinedegree.iitm.ac.in/t/python-setup-issues/156001'',
       link_text = ''Related Discussion 1''\<rparr>,
      \<lparr>link_url = ''https://discourse.onlinedegree.iitm.ac.in/t/python-setup-issues/156001'',
       link_text = ''Related Discussion 2''\<rparr>] \<and>
   extract_relevant_links length two_topics_context [] =
     [\<lparr>link_url = ''https://discourse.onlinedegree.iitm.ac.in/t/api-rate-limiting/155876'',
       link_text = ''Api Rate Limiting Discussion''\<rparr>,
      \<lparr>link_url = ''https://discourse.onlinedegree.iitm.ac.in/t/python-setup-issues/156001'',
       link_text = ''Python Setup Issues Discussion''\<rparr>]"
proof -
  have a: "extract_links_from_context two_topics_context =
     [\<lparr>link_url = ''https://discourse.onlinedegree.iitm.ac.in/t/python-setup-issues/156001'',
       link_text = ''Related Discussion 1''\<rparr>,
      \<lparr>link_url = ''https://discourse.onlinedegree.iitm.ac.in/t/python-setup-issues/156001'',
       link_text = ''Related Discussion 2''\<rparr>]"
    unfolding extract_links_from_context_def findall_two_topics Let_def
    by (simp add: string_of_nat.simps)
  have b: "py_set_list length (findall_forum_urls two_topics_context) =
     [''https://discourse.onlinedegree.iitm.ac.in/t/api-rate-limiting/155876'',
      ''https://discourse.onlinedegree.iitm.ac.in/t/python-setup-issues/156001'']"
    unfolding findall_two_topics py_set_list_def by simp
  show ?thesis
    unfolding a
    unfolding extract_relevant_links_def Let_def b
    by (simp add: title_api_rate_limiting title_python_setup_issues)
qed

section \<open>Properties of the Relevance Scorer\<close>

lemma count_where_length: "count_where p xs = length (filter p xs)"
  by (simp add: count_where_def sum_list_triv)

lemma count_word_set:
  "count_where p (word_set s) = card {word \<in> set (py_split s). p word}"
proof -
  have "count_where p (word_set s) = length (remdups (filter p (py_split s)))"
    by (simp add: count_where_length word_set_def remdups_filter)
  also have "\<dots> = card (set (filter p (py_split s)))"
    by (simp add: length_remdups_card_conv)
  finally show ?thesis by simp
qed

lemma course_score_eq:
  "course_relevance_score sec question_lower =
     2 * length (filter (\<lambda>topic. py_in topic question_lower) (sec_topics sec)) +
     card {word \<in> set (py_split question_lower). py_in word (py_lower (sec_content sec))}"
  unfolding course_relevance_score_def Let_def count_word_set
  by (simp add: count_where_length)

lemma post_score_eq:
  "post_relevance_score post question_lower =
     3 * length (filter (\<lambda>tag. py_in tag question_lower) (post_tags post)) +
     2 * card {word \<in> set (py_split question_lower). py_in word (py_lower (post_title post))} +
     card {word \<in> set (py_split question_lower). py_in word (py_lower (post_content post))}"
  unfolding post_relevance_score_def Let_def count_word_set
  by (simp add: count_where_length)

lemma card_single_word: "card {word \<in> set [w]. p word} = (if p w then 1 else 0)"
proof -
  have "{word \<in> set [w]. p word} = (if p w then {w} else {})"
    by auto
  then show ?thesis by simp
qed

lemma split_html: "py_split ''html'' = [''html'']"
  by (simp add: py_split_def py_isspace_def)

lemma split_rapid: "py_split ''rapid'' = [''rapid'']"
  by (simp add: py_split_def py_isspace_def)

lemma week1_html: "\<not> py_in ''html'' (py_lower (sec_content week1_section))"
  by code_simp

lemma post_rapid:
  "\<not> py_in ''rapid'' (py_lower (post_title post_155876)) \<and>
   \<not> py_in ''rapid'' (py_lower (post_content post_155876))"
  by code_simp

lemma week1_topics:
  "sec_topics week1_section = [''python'', ''git'', ''pandas'', ''numpy'', ''apis'', ''ml'']"
  by (simp add: week1_section_def)

lemma post_155876_tags:
  "post_tags post_155876 = [''api'', ''rate-limiting'', ''best-practices'', ''requests'']"
  by (simp add: post_155876_def)

lemma code_scores:
  "course_relevance_score week1_section ''html'' = 2 \<and>
   post_relevance_score post_155876 ''rapid'' = 3"
  using week1_html post_rapid
  by (simp add: course_score_eq post_score_eq split_html split_rapid card_single_word
      week1_topics post_155876_tags)

text \<open>
  Claim C4, as amended. The scorer splits the lowercased question at whitespace into its
  set of words. A Document's score is 2 times the number of its topic tags that occur in
  the lowercased question as substrings, plus the number of distinct question words that
  occur in the lowercased content as substrings. A ForumPost's score is 3 times the number
  of its tags that occur in the lowercased question as substrings, plus 2 times the number
  of distinct question words that occur in the lowercased title, plus the number of
  distinct question words that occur in the lowercased body.
\<close>

theorem relevance_scores_by_substring:
  "course_relevance_score sec question_lower =
     2 * length (filter (\<lambda>topic. py_in topic question_lower) (sec_topics sec)) +
     card {word \<in> set (py_split question_lower). py_in word (py_lower (sec_content sec))} \<and>
   post_relevance_score post question_lower =
     3 * length (filter (\<lambda>tag. py_in tag question_lower) (post_tags post)) +
     2 * card {word \<in> set (py_split question_lower). py_in word (py_lower (post_title post))} +
     card {word \<in> set (py_split question_lower). py_in word (py_lower (post_content post))}"
  using course_score_eq post_score_eq by blast

theorem relevance_scores_by_substring_witness:
  "course_relevance_score week1_section ''html'' = 2 \<and>
   post_relevance_score post_155876 ''rapid'' = 3"
  using relevance_scores_by_substring [of week1_section "''html''" post_155876]
    relevance_scores_by_substring [of week1_section "''rapid''" post_155876]
    week1_html post_rapid
  by (simp add: split_html split_rapid card_single_word week1_topics post_155876_tags)

text \<open>
  The claim as stated fails where a tag occurs inside a word of the question: the tag
  \<open>ml\<close> of the first course section occurs in \<open>html\<close>, the tag \<open>api\<close> of a forum post
  in \<open>rapid\<close>. The code counts both tags; as members of the word set neither counts.
\<close>

theorem tag_inside_word_counterexample:
  "course_relevance_score week1_section ''html'' = 2 \<and>
   claimed_course_score week1_section ''html'' = 0 \<and>
   post_relevance_score post_155876 ''rapid'' = 3 \<and>
   claimed_post_score post_155876 ''rapid'' = 0"
proof -
  have b: "claimed_course_score week1_section ''html'' = 0"
    unfolding claimed_course_score_def claimed_tag_matches_def
    using week1_html by (simp add: split_html card_single_word week1_topics)
  have d: "claimed_post_score post_155876 ''rapid'' = 0"
    unfolding claimed_post_score_def claimed_tag_matches_def
    using post_rapid by (simp add: split_rapid card_single_word post_155876_tags)
  from code_scores b d show ?thesis by simp
qed

section \<open>Properties of the Fallback Engine\<close>

lemma fallback_response_first_bucket:
  "fallback_response question =
     first_bucket category_buckets generic_payload
       (if question \<noteq> [] then py_lower question else [])"
  by (simp add: fallback_response_def category_buckets_def generic_payload_def forum_link_def
      Let_def)

lemma canned_answer_first_bucket:
  "canned_answer question_lower =
     first_bucket context_buckets ctx_generic_answer question_lower"
  by (simp add: canned_answer_def context_buckets_def)

lemma lower_python_api_error: "py_lower ''python api error'' = ''python api error''"
  by (simp add: py_lower_def lower_char_def upper_letters_def lower_letters_def)

lemma lower_git_commit: "py_lower ''git commit'' = ''git commit''"
  by (simp add: py_lower_def lower_char_def upper_letters_def lower_letters_def)

text \<open>
  Claim C7, as amended. Each fallback tier checks its own fixed ordered sequence of
  keyword buckets, and the first bucket with a keyword that occurs in the lowercased
  question wins. The category fallback checks AI/model, Python/setup, assignment, version
  control, debugging, and is generic otherwise. The context-aware fallback checks
  AI/model, Python/setup, assignment, with shorter keyword lists, and is generic
  otherwise: it has no version-control and no debugging bucket.
\<close>

theorem fallback_tiers_first_match:
  "fallback_response question =
     first_bucket category_buckets generic_payload
       (if question \<noteq> [] then py_lower question else []) \<and>
   answer (intelligent_fallback question ctx) =
     context_info (py_lower question) ctx @
     first_bucket context_buckets ctx_generic_answer (py_lower question)"
  by (simp add: fallback_response_first_bucket canned_answer_first_bucket
      intelligent_fallback_def Let_def)

theorem fallback_tiers_first_match_witness:
  "fallback_response ''python api error'' =
     \<lparr>answer = ai_model_answer,
      links = [\<lparr>link_url = forum_root, link_text = ''AI Model Usage Help''\<rparr>]\<rparr> \<and>
   answer (intelligent_fallback ''python api error'' []) = ctx_ai_model_answer"
  using fallback_tiers_first_match [of "''python api error''" "[]"]
  by (simp add: lower_python_api_error category_buckets_def context_buckets_def any_in_def
      context_info_def forum_link_def)

text \<open>
  The claim as stated fails in the context-aware tier: on \<open>git commit\<close> the category
  fallback answers from its version-control bucket, which is not its generic answer, and
  the context-aware fallback answers with its generic text.
\<close>

theorem version_control_counterexample:
  "any_in [''git'', ''version'', ''control'', ''github'', ''commit''] (py_lower ''git commit'') \<and>
   answer (fallback_response ''git commit'') = git_answer \<and>
   git_answer \<noteq> high_demand_answer \<and>
   answer (intelligent_fallback ''git commit'' []) = ctx_generic_answer"
proof -
  have a: "answer (fallback_response ''git commit'') = git_answer"
    by (simp add: fallback_response_first_bucket lower_git_commit category_buckets_def
        any_in_def)
  have b: "answer (intelligent_fallback ''git commit'' []) = ctx_generic_answer"
    by (simp add: intelligent_fallback_def Let_def canned_answer_first_bucket lower_git_commit
        context_buckets_def any_in_def context_info_def)
  have c: "git_answer \<noteq> high_demand_answer"
    by (simp add: git_answer_def high_demand_answer_def)
  have d: "any_in [''git'', ''version'', ''control'', ''github'', ''commit''] (py_lower ''git commit'')"
    by (simp add: lower_git_commit any_in_def)
  from a b c d show ?thesis by simp
qed

lemma count_where_positive: "count_where p xs > 0 \<longleftrightarrow> list_ex p xs"
  by (induction xs) (auto simp: count_where_def)

lemma list_ex_word_set: "list_ex p (word_set s) \<longleftrightarrow> list_ex p (py_split s)"
  by (simp add: word_set_def list_ex_iff)

lemma sentence_qualifies:
  "count_where (\<lambda>word. py_in word (py_lower sentence) \<and> length word > 3)
     (word_set question_lower) > 0 \<longleftrightarrow> shares_long_word question_lower sentence"
  unfolding count_where_positive list_ex_word_set shares_long_word_def
  by (auto simp: list_ex_iff)

lemma relevant_sentences_filter:
  "relevant_sentences (word_set question_lower) sentences =
     map py_strip (filter (shares_long_word question_lower) sentences)"
proof (induction sentences)
  case Nil
  show ?case by simp
next
  case (Cons sentence rest)
  show ?case
    unfolding relevant_sentences.simps Let_def sentence_qualifies Cons.IH
    by simp
qed

lemma context_info_long:
  "length ctx > 50 \<Longrightarrow> context_info question_lower ctx = mined_prefix question_lower ctx"
  by (auto simp: context_info_def mined_prefix_def Let_def relevant_sentences_filter take_map)

lemma context_info_short: "length ctx \<le> 50 \<Longrightarrow> context_info question_lower ctx = []"
  by (simp add: context_info_def)

text \<open>
  Claim C8, as amended. For every question and every context longer than 50 characters,
  the context-aware fallback looks at no more than the first 10 sentences of the context
  (the pieces between full stops), selects those that contain a word of the lowercased
  question longer than 3 characters, and puts at most the first 2 of them, trimmed, in
  front of the canned answer; when none qualifies the canned answer comes back without a
  prefix. For a context of at most 50 characters the canned answer comes back without a
  prefix, whatever its sentences.
\<close>

theorem context_prefix_mining:
  "(length ctx > 50 \<longrightarrow>
      answer (intelligent_fallback question ctx) =
        mined_prefix (py_lower question) ctx @ canned_answer (py_lower question)) \<and>
   (length ctx \<le> 50 \<longrightarrow>
      answer (intelligent_fallback question ctx) = canned_answer (py_lower question)) \<and>
   (filter (shares_long_word (py_lower question)) (take 10 (py_split_sep ''.'' ctx)) = [] \<longrightarrow>
      answer (intelligent_fallback question ctx) = canned_answer (py_lower question))"
proof -
  have "filter (shares_long_word (py_lower question)) (take 10 (py_split_sep ''.'' ctx)) = [] \<Longrightarrow>
        context_info (py_lower question) ctx = []"
    by (cases "length ctx > 50") (simp_all add: context_info_long context_info_short mined_prefix_def)
  then show ?thesis
    by (auto simp: intelligent_fallback_def Let_def context_info_long context_info_short)
qed

lemma lower_python_setup: "py_lower ''python setup'' = ''python setup''"
  by (simp add: py_lower_def lower_char_def upper_letters_def lower_letters_def)

lemma lower_course_context: "py_lower ''course context'' = ''course context''"
  by (simp add: py_lower_def lower_char_def upper_letters_def lower_letters_def)

lemma lower_hi: "py_lower ''hi'' = ''hi''"
  by (simp add: py_lower_def lower_char_def upper_letters_def lower_letters_def)

lemma mined_setup_context:
  "mined_prefix ''python setup'' setup_context =
     ''Based on course materials: Python setup needs a virtual environment. ''"
  by code_simp

lemma mined_no_context:
  "mined_prefix ''course context'' no_context =
     ''Based on course materials: Unable to retrieve specific course context. ''"
  by code_simp

lemma unqualified_setup_context:
  "filter (shares_long_word ''hi'') (take 10 (py_split_sep ''.'' setup_context)) = []"
  by code_simp

lemma mined_unqualified: "mined_prefix ''hi'' setup_context = []"
  by (simp add: mined_prefix_def unqualified_setup_context)

lemma canned_examples:
  "canned_answer ''python setup'' = ctx_python_answer \<and>
   canned_answer ''course context'' = ctx_generic_answer \<and>
   canned_answer ''hi'' = ctx_generic_answer"
  by (simp add: canned_answer_def any_in_def)

theorem context_prefix_mining_witness:
  "50 < length setup_context \<and>
   answer (intelligent_fallback ''python setup'' setup_context) =
     ''Based on course materials: Python setup needs a virtual environment. '' @
     ctx_python_answer \<and>
   length no_context \<le> 50 \<and>
   answer (intelligent_fallback ''course context'' no_context) = ctx_generic_answer \<and>
   filter (shares_long_word (py_lower ''hi'')) (take 10 (py_split_sep ''.'' setup_context)) = [] \<and>
   answer (intelligent_fallback ''hi'' setup_context) = ctx_generic_answer"
proof -
  have long: "50 < length setup_context"
    by (simp add: setup_context_def)
  have short: "length no_context \<le> 50"
    by (simp add: no_context_def)
  from long short unqualified_setup_context
    context_prefix_mining [of setup_context "''python setup''"]
    context_prefix_mining [of no_context "''course context''"]
    context_prefix_mining [of setup_context "''hi''"]
  show ?thesis
    by (simp add: lower_python_setup lower_course_context lower_hi mined_setup_context
        mined_unqualified canned_examples)
qed

text \<open>
  The claim as stated fails on a short context: the text the request handler uses when the
  retrieval fails has 43 characters and one sentence that shares \<open>course\<close> and \<open>context\<close>
  with the question, and the answer carries no prefix.
\<close>

theorem short_context_counterexample:
  "shares_long_word (py_lower ''course context'') ''Unable to retrieve specific course context'' \<and>
   mined_prefix (py_lower ''course context'') no_context =
     ''Based on course materials: Unable to retrieve specific course context. '' \<and>
   answer (intelligent_fallback ''course context'' no_context) = ctx_generic_answer \<and>
   answer (intelligent_fallback ''course context'' no_context) \<noteq>
     mined_prefix (py_lower ''course context'') no_context @
     canned_answer (py_lower ''course context'')"
proof -
  have a: "shares_long_word ''course context'' ''Unable to retrieve specific course context''"
    by code_simp
  have b: "answer (intelligent_fallback ''course context'' no_context) = ctx_generic_answer"
    using canned_examples
    by (simp add: intelligent_fallback_def Let_def lower_course_context context_info_short
        no_context_def)
  from a b show ?thesis
    by (simp add: lower_course_context mined_no_context canned_examples)
qed

section \<open>The quota state across requests\<close>

lemma always_ok_retry: "generate_with_retry always_ok prompt 2 = (Some ''ok'', [Call prompt])"
  by (simp add: generate_with_retry_def upt_two always_ok_def py_strip_def py_isspace_def)

lemma ai_always_ok:
  "ai_generate_answer rank \<lparr>model = Some always_ok, is_initialized = True\<rparr> question ctx img =
     (process_ai_response rank ''ok'' ctx question, [Call (create_prompt question ctx img)])"
  by (simp add: ai_generate_answer_def always_ok_retry Let_def)

lemma first_call_of_fresh_service:
  assumes "generate_answer rank c (MultiAIService_init ''key'' (Some always_ok)) question ctx img =
             (p, s, ev)"
  shows "request_count s = 1 \<and> daily_limit s = 50 \<and> generation_calls ev = 1"
  using assms
  by (auto simp: generate_answer_def MultiAIService_init_def AIService_init_def ai_always_ok
      generation_calls_def Let_def split: if_splits)

lemma serve_question_counts:
  "(case serve_question env_ok question of
      (response, service, events) \<Rightarrow>
        (request_count service, daily_limit service, generation_calls events)) = (1, 50, 1)"
proof -
  obtain p s ev where g: "generate_answer length \<lparr>current_time = 1000, stamp_time = 1000\<rparr>
      (MultiAIService_init ''key'' (Some always_ok)) question
      (search_relevant_content DataScraper_init question) [] = (p, s, ev)"
    by (metis prod_cases3)
  from first_call_of_fresh_service [OF g] show ?thesis
    by (simp add: serve_question_def env_ok_def Let_def g)
qed

text \<open>
  Claim C5 on the code. The request handler constructs a new \<open>MultiAIService\<close> for every
  request, so the count a request is checked against is always 0. A process that serves 51
  requests calls the Generation Client in each of them, 51 calls against a daily limit of
  50, and the orchestrator of every request, the 51st included, ends with a count of 1.
\<close>

theorem fresh_counter_per_request:
  "map (\<lambda>(response, service, events).
          (request_count service, daily_limit service, generation_calls events))
       (serve_all (replicate 51 (env_ok, ''What is pandas?''))) =
     replicate 51 (1, 50, 1)"
  using serve_question_counts [of "''What is pandas?''"]
  by (simp add: serve_all_def)

end
